theory Spec2Isabelle
  imports Main "HOL-Library.Word"
begin

section \<open>Health Track backend: a model of \<^verbatim>\<open>backend/main.py\<close>\<close>

text \<open>
  The backend is one Python module: a helper \<^verbatim>\<open>ask_gemini\<close> around the external
  generative model, and the route handlers \<^verbatim>\<open>home\<close>, \<^verbatim>\<open>analyze_text\<close> and
  \<^verbatim>\<open>analyze_file\<close>. The handlers are modelled as functions from the request and the
  environment (what the external services answer) to the way the handler ends (the
  value it returns, the exception that leaves it, or no return) and the list of
  external calls made, in order. The framework then makes the HTTP response of the
  value returned (\<open>respond\<close>). Logging is left out: it returns nothing the
  handlers read.
\<close>

subsection \<open>Python values\<close>

text \<open>
  A Python \<^verbatim>\<open>str\<close> is a sequence of Unicode code points, a \<^verbatim>\<open>bytes\<close> object a
  sequence of octets. \<open>lit\<close> embeds an ASCII string literal, \<open>blit\<close> an ASCII
  bytes literal.
\<close>

type_synonym pystr = "nat list"
type_synonym byte = "8 word"

definition lit :: "string \<Rightarrow> pystr" where
  "lit s = map of_char s"

definition blit :: "string \<Rightarrow> byte list" where
  "blit s = map of_char s"

text \<open>The values \<^verbatim>\<open>json.loads\<close> builds and the handlers return: \<^verbatim>\<open>None\<close>, \<^verbatim>\<open>bool\<close>,
  \<^verbatim>\<open>int\<close>, \<^verbatim>\<open>float\<close> (kept as the text that \<^verbatim>\<open>float()\<close> is given), \<^verbatim>\<open>str\<close>,
  \<^verbatim>\<open>list\<close> and \<^verbatim>\<open>dict\<close> (keys in insertion order, each key once).\<close>

datatype json =
    JNull
  | JBool bool
  | JInt int
  | JFloat pystr
  | JString pystr
  | JArray "json list"
  | JObject "(pystr \<times> json) list"

text \<open>
  An exception that was raised. The named classes are those the modelled library
  functions raise; \<open>Raised\<close> is any other exception that derives from
  \<^verbatim>\<open>Exception\<close>, with its text \<^verbatim>\<open>str(e)\<close>; \<open>BaseRaised\<close> is an exception that does
  not derive from \<^verbatim>\<open>Exception\<close> (\<^verbatim>\<open>KeyboardInterrupt\<close>, \<^verbatim>\<open>SystemExit\<close>,
  \<^verbatim>\<open>GeneratorExit\<close>), with its text. An \<^verbatim>\<open>except Exception\<close> clause takes the
  former and lets the latter through.
\<close>

datatype py_exc =
    UnicodeDecodeError
  | JSONDecodeError
  | RecursionError
  | ValueError
  | AttributeError
  | Raised pystr
  | BaseRaised pystr

fun derives_from_Exception :: "py_exc \<Rightarrow> bool" where
  "derives_from_Exception (BaseRaised e) = False"
| "derives_from_Exception _ = True"

text \<open>How a call ends when it does not return a value: an exception leaves it, or
  it never returns (the external service hangs; no timeout is set anywhere).\<close>

datatype abrupt = Raise py_exc | NoReturn

subsection \<open>String methods\<close>

text \<open>\<^verbatim>\<open>str.isspace\<close> of one code point: the characters \<^verbatim>\<open>str.strip()\<close> removes.\<close>

definition is_space :: "nat \<Rightarrow> bool" where
  "is_space c =
     ((0x09 \<le> c \<and> c \<le> 0x0D) \<or> (0x1C \<le> c \<and> c \<le> 0x20) \<or> c = 0x85 \<or> c = 0xA0 \<or>
      c = 0x1680 \<or> (0x2000 \<le> c \<and> c \<le> 0x200A) \<or> c = 0x2028 \<or> c = 0x2029 \<or>
      c = 0x202F \<or> c = 0x205F \<or> c = 0x3000)"

definition strip :: "pystr \<Rightarrow> pystr" where
  "strip s = rev (dropWhile is_space (rev (dropWhile is_space s)))"

definition startswith :: "pystr \<Rightarrow> pystr \<Rightarrow> bool" where
  "startswith s p = (take (length p) s = p)"

definition endswith :: "pystr \<Rightarrow> pystr \<Rightarrow> bool" where
  "endswith s p = (length p \<le> length s \<and> drop (length s - length p) s = p)"

text \<open>\<^verbatim>\<open>s.endswith((p1, p2, ...))\<close>: some member of the tuple is a suffix.\<close>

definition endswith_any :: "pystr \<Rightarrow> pystr list \<Rightarrow> bool" where
  "endswith_any s ps = list_ex (endswith s) ps"

text \<open>
  \<^verbatim>\<open>str.lower()\<close> maps each code point to its lowercase expansion. For ASCII that is
  \<open>A-Z\<close> to \<open>a-z\<close>; for the rest it is the Unicode character database, which is not
  part of the repository and is a parameter here: \<open>db s i\<close> is the expansion of the
  code point at position \<open>i\<close> of \<open>s\<close> (the position matters for the final sigma).
\<close>

type_synonym unicode_db = "pystr \<Rightarrow> nat \<Rightarrow> pystr"

definition lower_at :: "unicode_db \<Rightarrow> pystr \<Rightarrow> nat \<Rightarrow> pystr" where
  "lower_at db s i =
     (let c = s ! i in
      if c < 0x80 then (if 0x41 \<le> c \<and> c \<le> 0x5A then [c + 0x20] else [c])
      else db s i)"

definition lower :: "unicode_db \<Rightarrow> pystr \<Rightarrow> pystr" where
  "lower db s = concat (map (lower_at db s) [0..<length s])"

subsection \<open>The environment\<close>

text \<open>
  What \<^verbatim>\<open>model.generate_content(full_prompt)\<close> followed by reading
  \<^verbatim>\<open>response.text\<close> does: an exception \<open>e\<close> that derives from \<^verbatim>\<open>Exception\<close> is
  raised, whatever the failure (network, authentication, quota, a reply without
  text; \<open>GenRaises\<close> holds \<^verbatim>\<open>str(e)\<close>); or \<^verbatim>\<open>response.text\<close> is \<^verbatim>\<open>None\<close> or a
  string; or an exception that does not derive from \<^verbatim>\<open>Exception\<close> is raised
  (\<open>GenRaisesBase\<close> holds its text: a \<^verbatim>\<open>KeyboardInterrupt\<close> while the call waits, a
  \<^verbatim>\<open>SystemExit\<close>); or the call does not return.
\<close>

datatype gen_outcome =
    GenRaises pystr
  | GenText "pystr option"
  | GenRaisesBase pystr
  | GenHangs

text \<open>The outcomes after which \<^verbatim>\<open>ask_gemini\<close> has something to return: the call
  returned, or raised what \<^verbatim>\<open>except Exception\<close> takes.\<close>

fun settles :: "gen_outcome \<Rightarrow> bool" where
  "settles (GenRaises e) = True"
| "settles (GenText t) = True"
| "settles (GenRaisesBase e) = False"
| "settles GenHangs = False"

text \<open>The calls a handler makes to the outside, in the order it makes them.\<close>

datatype 'img event =
    GenerateContent pystr
  | ImageOpen "byte list"
  | ImageToString 'img

text \<open>
  The module state set at import (\<^verbatim>\<open>OCR_AVAILABLE\<close>, the model handle) and the
  behaviour of the libraries behind it: the generative model, \<^verbatim>\<open>Image.open\<close>,
  \<^verbatim>\<open>pytesseract.image_to_string\<close>, the interpreter's recursion headroom and integer
  digit limit (\<open>0\<close>: no limit) that \<^verbatim>\<open>json.loads\<close> runs under, and the depth
  of nesting that the framework's response encoder gets through.
\<close>

record 'img env =
  OCR_AVAILABLE :: bool
  generate_content :: "pystr \<Rightarrow> gen_outcome"
  Image_open :: "byte list \<Rightarrow> abrupt + 'img"
  image_to_string :: "'img \<Rightarrow> abrupt + pystr"
  unicode_lower :: unicode_db
  recursion_limit :: nat
  int_max_str_digits :: nat
  encoder_limit :: nat

subsection \<open>The helper \<^verbatim>\<open>ask_gemini\<close> (lines 57 to 73)\<close>

definition default_system_prompt :: pystr where
  "default_system_prompt =
     lit ''You are a helpful, cautious medical assistant. '' @
     lit ''Provide non-diagnostic advice, clearly indicate if the user should seek medical care, '' @
     lit ''and suggest follow-up steps and specialist types.''"

text \<open>\<^verbatim>\<open>system or (...)\<close>: the default replaces \<^verbatim>\<open>None\<close> and the empty string.\<close>

definition system_or_default :: "pystr option \<Rightarrow> pystr" where
  "system_or_default system =
     (case system of None \<Rightarrow> default_system_prompt
      | Some s \<Rightarrow> if s = [] then default_system_prompt else s)"

definition full_prompt :: "pystr option \<Rightarrow> pystr \<Rightarrow> pystr" where
  "full_prompt system prompt =
     system_or_default system @ [10, 10] @ lit ''User input:'' @ [10] @ prompt"

text \<open>
  The body of the \<^verbatim>\<open>try\<close> returns, raises or does not come back;
  \<^verbatim>\<open>except Exception as e\<close> turns a raise into the marker string when the
  exception derives from \<^verbatim>\<open>Exception\<close>, and lets any other through.
\<close>

definition ask_gemini_try :: "'img env \<Rightarrow> pystr \<Rightarrow> pystr option \<Rightarrow> abrupt + pystr" where
  "ask_gemini_try env prompt system =
     (case generate_content env (full_prompt system prompt) of
        GenRaises e \<Rightarrow> Inl (Raise (Raised e))
      | GenRaisesBase e \<Rightarrow> Inl (Raise (BaseRaised e))
      | GenHangs \<Rightarrow> Inl NoReturn
      | GenText None \<Rightarrow> Inr (lit ''[No response]'')
      | GenText (Some t) \<Rightarrow> Inr (if t = [] then lit ''[No response]'' else strip t))"

text \<open>\<^verbatim>\<open>str(e)\<close> of a caught exception.\<close>

fun exc_str :: "py_exc \<Rightarrow> pystr" where
  "exc_str (Raised e) = e"
| "exc_str (BaseRaised e) = e"
| "exc_str UnicodeDecodeError = lit ''UnicodeDecodeError''"
| "exc_str JSONDecodeError = lit ''JSONDecodeError''"
| "exc_str RecursionError = lit ''RecursionError''"
| "exc_str ValueError = lit ''ValueError''"
| "exc_str AttributeError = lit ''AttributeError''"

definition ask_gemini ::
  "'img env \<Rightarrow> pystr \<Rightarrow> pystr option \<Rightarrow> (abrupt + pystr) \<times> 'img event list" where
  "ask_gemini env prompt system =
     ((case ask_gemini_try env prompt system of
         Inr text \<Rightarrow> Inr text
       | Inl (Raise e) \<Rightarrow>
           if derives_from_Exception e then Inr (lit ''[Gemini error] '' @ exc_str e)
           else Inl (Raise e)
       | Inl NoReturn \<Rightarrow> Inl NoReturn),
      [GenerateContent (full_prompt system prompt)])"

subsection \<open>The route \<^verbatim>\<open>GET /\<close> (lines 80 to 82)\<close>

definition home :: "(abrupt + json) \<times> 'img event list" where
  "home =
     (Inr (JObject [(lit ''message'', JString ([0x2705] @ lit '' FastAPI + Gemini backend is running!''))]),
      [])"

subsection \<open>The route \<^verbatim>\<open>POST /analyze\<close> (lines 85 to 103)\<close>

definition symptom_prompt :: "pystr \<Rightarrow> pystr" where
  "symptom_prompt symptom =
     lit ''User symptom description:'' @ [10, 10] @ symptom @ [10, 10] @
     lit ''Please provide:'' @ [10] @
     lit ''1) Short summary of likely causes (2'' @ [0x2013] @ lit ''4 bullet points).'' @ [10] @
     lit ''2) Urgency level (e.g., 'seek immediate care', 'see doctor within 48 hours', 'self-care ok').'' @ [10] @
     lit ''3) Practical next steps (3 bullets) and what specialist to consult if needed.'' @ [10] @
     lit ''4) List any red-flag symptoms that should prompt immediate emergency care.'' @ [10] @
     lit ''Be concise and avoid giving definitive medical diagnoses. Use plain language.''"

definition analyze_text :: "'img env \<Rightarrow> pystr \<Rightarrow> (abrupt + json) \<times> 'img event list" where
  "analyze_text env req_symptom =
     (let symptom = strip req_symptom in
      if symptom = [] then
        (Inr (JObject [(lit ''result'', JString (lit ''Please provide a non-empty symptom description.''))]), [])
      else
        (case ask_gemini env (symptom_prompt symptom) None of
           (Inl e, evs) \<Rightarrow> (Inl e, evs)
         | (Inr answer, evs) \<Rightarrow> (Inr (JObject [(lit ''result'', JString answer)]), evs)))"

subsection \<open>\<^verbatim>\<open>bytes.decode("utf-8", errors=...)\<close>\<close>

text \<open>
  The decoder reads one sequence at a time. \<open>utf8_next\<close> looks at the lead byte
  \<open>ch\<close> and the bytes after it and answers: a code point and how many continuation
  bytes it took; an invalid sequence and how many bytes after the lead byte belong
  to it; or a sequence that the end of the data cuts short. The ranges are those
  of the interpreter's decoder: no overlong forms, no surrogates, nothing above
  \<open>U+10FFFF\<close>.
\<close>

datatype utf8_step = Decoded nat nat | Invalid nat | Truncated

definition is_cont :: "byte \<Rightarrow> bool" where
  "is_cont b = (0x80 \<le> b \<and> b < 0xC0)"

definition utf8_next :: "byte \<Rightarrow> byte list \<Rightarrow> utf8_step" where
  "utf8_next ch rest =
     (if ch < 0x80 then Decoded (unat ch) 0
      else if ch < 0xE0 then
        (if ch < 0xC2 then Invalid 0
         else (case rest of
           [] \<Rightarrow> Truncated
         | ch2 # _ \<Rightarrow>
             if \<not> is_cont ch2 then Invalid 0
             else Decoded (unat ch * 64 + unat ch2 - (0xC0 * 64 + 0x80)) 1))
      else if ch < 0xF0 then
        (case rest of
           [] \<Rightarrow> Truncated
         | ch2 # rest2 \<Rightarrow>
             if \<not> is_cont ch2 \<or> (if ch2 < 0xA0 then ch = 0xE0 else ch = 0xED) then Invalid 0
             else (case rest2 of
               [] \<Rightarrow> Truncated
             | ch3 # _ \<Rightarrow>
                 if \<not> is_cont ch3 then Invalid 1
                 else Decoded (unat ch * 4096 + unat ch2 * 64 + unat ch3
                                - (0xE0 * 4096 + 0x80 * 64 + 0x80)) 2))
      else if ch < 0xF5 then
        (case rest of
           [] \<Rightarrow> Truncated
         | ch2 # rest2 \<Rightarrow>
             if \<not> is_cont ch2 \<or> (if ch2 < 0x90 then ch = 0xF0 else ch = 0xF4) then Invalid 0
             else (case rest2 of
               [] \<Rightarrow> Truncated
             | ch3 # rest3 \<Rightarrow>
                 if \<not> is_cont ch3 then Invalid 1
                 else (case rest3 of
                   [] \<Rightarrow> Truncated
                 | ch4 # _ \<Rightarrow>
                     if \<not> is_cont ch4 then Invalid 2
                     else Decoded (unat ch * 262144 + unat ch2 * 4096 + unat ch3 * 64 + unat ch4
                                    - (0xF0 * 262144 + 0x80 * 4096 + 0x80 * 64 + 0x80)) 3)))
      else Invalid 0)"

text \<open>
  The error handler: \<^verbatim>\<open>"strict"\<close> raises \<^verbatim>\<open>UnicodeDecodeError\<close>,
  \<^verbatim>\<open>"replace"\<close> writes \<open>U+FFFD\<close> for the invalid range and goes on after it.
\<close>

datatype errors = Strict | Replace

function bytes_decode :: "errors \<Rightarrow> byte list \<Rightarrow> py_exc + pystr" where
  "bytes_decode errs [] = Inr []"
| "bytes_decode errs (ch # rest) =
     (case utf8_next ch rest of
        Decoded c k \<Rightarrow>
          (case bytes_decode errs (drop k rest) of Inl e \<Rightarrow> Inl e | Inr s \<Rightarrow> Inr (c # s))
      | Invalid k \<Rightarrow>
          (case errs of
             Strict \<Rightarrow> Inl UnicodeDecodeError
           | Replace \<Rightarrow>
               (case bytes_decode errs (drop k rest) of Inl e \<Rightarrow> Inl e | Inr s \<Rightarrow> Inr (0xFFFD # s)))
      | Truncated \<Rightarrow>
          (case errs of Strict \<Rightarrow> Inl UnicodeDecodeError | Replace \<Rightarrow> Inr [0xFFFD]))"
  by pat_completeness auto
termination
  by (relation "measure (\<lambda>(errs, bs). length bs)") auto

subsection \<open>\<^verbatim>\<open>json.loads\<close>\<close>

text \<open>
  The decoder of the standard library, on a \<^verbatim>\<open>str\<close>: whitespace is space, tab,
  line feed and carriage return; a document is one value with whitespace around
  it. Every function takes the text from the position it reads at and returns
  the value with the text after it. The ways to fail are \<^verbatim>\<open>JSONDecodeError\<close>,
  \<^verbatim>\<open>RecursionError\<close> (nesting beyond the interpreter's limit) and \<^verbatim>\<open>ValueError\<close>
  (an integer of more digits than the interpreter converts).
\<close>

definition is_ws :: "nat \<Rightarrow> bool" where
  "is_ws c = (c = 0x20 \<or> c = 0x09 \<or> c = 0x0A \<or> c = 0x0D)"

definition skip_ws :: "pystr \<Rightarrow> pystr" where
  "skip_ws s = dropWhile is_ws s"

definition is_digit :: "nat \<Rightarrow> bool" where
  "is_digit c = (0x30 \<le> c \<and> c \<le> 0x39)"

definition hex_digit :: "nat \<Rightarrow> nat option" where
  "hex_digit c =
     (if 0x30 \<le> c \<and> c \<le> 0x39 then Some (c - 0x30)
      else if 0x61 \<le> c \<and> c \<le> 0x66 then Some (c - 0x61 + 10)
      else if 0x41 \<le> c \<and> c \<le> 0x46 then Some (c - 0x41 + 10)
      else None)"

text \<open>The four hexadecimal digits of a \<^verbatim>\<open>\uXXXX\<close> escape.\<close>

fun hex4 :: "pystr \<Rightarrow> nat option" where
  "hex4 [a, b, c, d] =
     (case (hex_digit a, hex_digit b, hex_digit c, hex_digit d) of
        (Some x, Some y, Some z, Some w) \<Rightarrow> Some (((x * 16 + y) * 16 + z) * 16 + w)
      | _ \<Rightarrow> None)"
| "hex4 _ = None"

text \<open>The one-letter escapes after a backslash.\<close>

definition backslash :: "nat \<Rightarrow> nat option" where
  "backslash c =
     (if c = 0x22 \<or> c = 0x5C \<or> c = 0x2F then Some c
      else if c = 0x62 then Some 0x08
      else if c = 0x66 then Some 0x0C
      else if c = 0x6E then Some 0x0A
      else if c = 0x72 then Some 0x0D
      else if c = 0x74 then Some 0x09
      else None)"

definition push_char :: "nat \<Rightarrow> py_exc + (pystr \<times> pystr) \<Rightarrow> py_exc + (pystr \<times> pystr)" where
  "push_char c res = (case res of Inl e \<Rightarrow> Inl e | Inr (str, r) \<Rightarrow> Inr (c # str, r))"

text \<open>
  \<open>scanstring\<close> reads a string from after its opening quote, in strict mode: a
  control character is an error. A \<^verbatim>\<open>\uXXXX\<close> escape needs a character after its
  digits (the string does not end there); a high surrogate followed by an escaped
  low surrogate is one code point.
\<close>

function scanstring :: "pystr \<Rightarrow> py_exc + (pystr \<times> pystr)" where
  "scanstring [] = Inl JSONDecodeError"
| "scanstring (c # cs) =
     (if c = 0x22 then Inr ([], cs)
      else if c = 0x5C then
        (case cs of
           [] \<Rightarrow> Inl JSONDecodeError
         | esc # cs1 \<Rightarrow>
             if esc \<noteq> 0x75 then
               (case backslash esc of
                  None \<Rightarrow> Inl JSONDecodeError
                | Some ch \<Rightarrow> push_char ch (scanstring cs1))
             else if length cs1 < 5 then Inl JSONDecodeError
             else
               (case hex4 (take 4 cs1) of
                  None \<Rightarrow> Inl JSONDecodeError
                | Some uni \<Rightarrow>
                    if 0xD800 \<le> uni \<and> uni \<le> 0xDBFF \<and> 7 \<le> length (drop 4 cs1) \<and>
                       take 2 (drop 4 cs1) = [0x5C, 0x75] then
                      (case hex4 (take 4 (drop 6 cs1)) of
                         None \<Rightarrow> Inl JSONDecodeError
                       | Some uni2 \<Rightarrow>
                           if 0xDC00 \<le> uni2 \<and> uni2 \<le> 0xDFFF then
                             push_char (0x10000 + ((uni - 0xD800) * 1024 + (uni2 - 0xDC00)))
                               (scanstring (drop 10 cs1))
                           else push_char uni (scanstring (drop 4 cs1)))
                    else push_char uni (scanstring (drop 4 cs1))))
      else if c \<le> 0x1F then Inl JSONDecodeError
      else push_char c (scanstring cs))"
  by pat_completeness auto
termination
  by (relation "measure length") auto

text \<open>
  A number is \<^verbatim>\<open>-?(0|[1-9][0-9]*)(\.[0-9]+)?([eE][-+]?[0-9]+)?\<close>, the longest match
  at the position. Without fraction and exponent it is an \<^verbatim>\<open>int\<close>, whose
  conversion fails beyond \<open>maxd\<close> digits when \<open>maxd\<close> is not \<open>0\<close>; otherwise
  it is a \<^verbatim>\<open>float\<close>.
\<close>

definition digits_value :: "pystr \<Rightarrow> int" where
  "digits_value ds = foldl (\<lambda>a d. 10 * a + (int d - 0x30)) 0 ds"

definition match_fraction :: "pystr \<Rightarrow> pystr \<times> pystr" where
  "match_fraction r =
     (case r of
        [] \<Rightarrow> ([], r)
      | p # r1 \<Rightarrow>
          if p = 0x2E \<and> takeWhile is_digit r1 \<noteq> []
          then (p # takeWhile is_digit r1, dropWhile is_digit r1)
          else ([], r))"

definition match_exponent :: "pystr \<Rightarrow> pystr \<times> pystr" where
  "match_exponent r =
     (case r of
        [] \<Rightarrow> ([], r)
      | e # r1 \<Rightarrow>
          if e = 0x65 \<or> e = 0x45 then
            (let sg = (case r1 of [] \<Rightarrow> [] | g # _ \<Rightarrow> if g = 0x2D \<or> g = 0x2B then [g] else []);
                 r2 = drop (length sg) r1
             in if takeWhile is_digit r2 = [] then ([], r)
                else (e # sg @ takeWhile is_digit r2, dropWhile is_digit r2))
          else ([], r))"

definition match_number :: "nat \<Rightarrow> pystr \<Rightarrow> py_exc + (json \<times> pystr)" where
  "match_number maxd s =
     (let sign = (case s of [] \<Rightarrow> [] | c # _ \<Rightarrow> if c = 0x2D then [c] else []) in
      case drop (length sign) s of
        [] \<Rightarrow> Inl JSONDecodeError
      | c # cs \<Rightarrow>
          if is_digit c then
            (let ds = (if c = 0x30 then [c] else c # takeWhile is_digit cs);
                 r = (if c = 0x30 then cs else dropWhile is_digit cs);
                 frac = fst (match_fraction r);
                 ex = fst (match_exponent (snd (match_fraction r)));
                 r2 = snd (match_exponent (snd (match_fraction r)))
             in if frac = [] \<and> ex = [] then
                  (if 0 < maxd \<and> maxd < length ds then Inl ValueError
                   else Inr (JInt (if sign = [] then digits_value ds else - digits_value ds), r2))
                else Inr (JFloat (sign @ ds @ frac @ ex), r2))
          else Inl JSONDecodeError)"

text \<open>\<^verbatim>\<open>d[key] = value\<close>: a new key goes last, a known key keeps its place.\<close>

fun dict_setitem :: "(pystr \<times> json) list \<Rightarrow> pystr \<Rightarrow> json \<Rightarrow> (pystr \<times> json) list" where
  "dict_setitem [] k v = [(k, v)]"
| "dict_setitem ((k', v') # kvs) k v =
     (if k' = k then (k, v) # kvs else (k', v') # dict_setitem kvs k v)"

text \<open>
  \<open>scan_once\<close> reads one value; \<open>parse_array\<close> and \<open>parse_object\<close> are the loops
  over the items of a non-empty array and the members of a non-empty object, from
  the position of the next item or key. \<open>depth\<close> is how many more arrays and
  objects may be entered. The tests \<open>length _ < length s\<close> before a recursive call
  always hold (lemmas \<open>parse_array_guard\<close> and \<open>parse_object_guards\<close> below); they
  are what shows the recursion to end.
\<close>

function scan_once :: "nat \<Rightarrow> nat \<Rightarrow> pystr \<Rightarrow> py_exc + (json \<times> pystr)"
  and parse_array :: "nat \<Rightarrow> nat \<Rightarrow> json list \<Rightarrow> pystr \<Rightarrow> py_exc + (json \<times> pystr)"
  and parse_object :: "nat \<Rightarrow> nat \<Rightarrow> (pystr \<times> json) list \<Rightarrow> pystr \<Rightarrow> py_exc + (json \<times> pystr)"
where
  "scan_once depth maxd s =
     (case s of
        [] \<Rightarrow> Inl JSONDecodeError
      | c # cs \<Rightarrow>
          if c = 0x22 then
            (case scanstring cs of Inl e \<Rightarrow> Inl e | Inr (str, r) \<Rightarrow> Inr (JString str, r))
          else if c = 0x7B then
            (if depth = 0 then Inl RecursionError
             else (case skip_ws cs of
                     [] \<Rightarrow> Inl JSONDecodeError
                   | c1 # r1 \<Rightarrow>
                       if c1 = 0x7D then Inr (JObject [], r1)
                       else parse_object (depth - 1) maxd [] (skip_ws cs)))
          else if c = 0x5B then
            (if depth = 0 then Inl RecursionError
             else (case skip_ws cs of
                     [] \<Rightarrow> Inl JSONDecodeError
                   | c1 # r1 \<Rightarrow>
                       if c1 = 0x5D then Inr (JArray [], r1)
                       else parse_array (depth - 1) maxd [] (skip_ws cs)))
          else if take 4 s = lit ''null'' then Inr (JNull, drop 4 s)
          else if take 4 s = lit ''true'' then Inr (JBool True, drop 4 s)
          else if take 5 s = lit ''false'' then Inr (JBool False, drop 5 s)
          else if take 3 s = lit ''NaN'' then Inr (JFloat (lit ''NaN''), drop 3 s)
          else if take 8 s = lit ''Infinity'' then Inr (JFloat (lit ''Infinity''), drop 8 s)
          else if take 9 s = lit ''-Infinity'' then Inr (JFloat (lit ''-Infinity''), drop 9 s)
          else match_number maxd s)"
| "parse_array depth maxd acc s =
     (case scan_once depth maxd s of
        Inl e \<Rightarrow> Inl e
      | Inr (v, r) \<Rightarrow>
          (case skip_ws r of
             [] \<Rightarrow> Inl JSONDecodeError
           | c # r1 \<Rightarrow>
               if c = 0x5D then Inr (JArray (acc @ [v]), r1)
               else if c \<noteq> 0x2C then Inl JSONDecodeError
               else if length (skip_ws r1) < length s
                 then parse_array depth maxd (acc @ [v]) (skip_ws r1)
                 else Inl JSONDecodeError))"
| "parse_object depth maxd acc s =
     (case s of
        [] \<Rightarrow> Inl JSONDecodeError
      | q # cs \<Rightarrow>
          if q \<noteq> 0x22 then Inl JSONDecodeError
          else
            (case scanstring cs of
               Inl e \<Rightarrow> Inl e
             | Inr (key, r) \<Rightarrow>
                 (case skip_ws r of
                    [] \<Rightarrow> Inl JSONDecodeError
                  | c # r1 \<Rightarrow>
                      if c \<noteq> 0x3A then Inl JSONDecodeError
                      else if \<not> length (skip_ws r1) < length s then Inl JSONDecodeError
                      else
                        (case scan_once depth maxd (skip_ws r1) of
                           Inl e \<Rightarrow> Inl e
                         | Inr (v, r2) \<Rightarrow>
                             (case skip_ws r2 of
                                [] \<Rightarrow> Inl JSONDecodeError
                              | c2 # r3 \<Rightarrow>
                                  if c2 = 0x7D then Inr (JObject (dict_setitem acc key v), r3)
                                  else if c2 \<noteq> 0x2C then Inl JSONDecodeError
                                  else if length (skip_ws r3) < length s
                                    then parse_object depth maxd (dict_setitem acc key v) (skip_ws r3)
                                    else Inl JSONDecodeError)))))"
  by pat_completeness auto
termination
  apply (relation "measure (\<lambda>x. case x of
          Inl (depth, maxd, s) \<Rightarrow> 2 * length s
        | Inr (Inl (depth, maxd, acc, s)) \<Rightarrow> 2 * length s + 1
        | Inr (Inr (depth, maxd, acc, s)) \<Rightarrow> 2 * length s + 1)")
  apply (auto simp: skip_ws_def)
  subgoal for depth cs c1 r1 using length_dropWhile_le [of is_ws cs] by simp
  subgoal for depth cs c1 r1 using length_dropWhile_le [of is_ws cs] by simp
  done

text \<open>
  \<^verbatim>\<open>json.loads(s)\<close> for a \<^verbatim>\<open>str\<close>: a leading byte order mark is refused, and
  nothing but whitespace may follow the value.
\<close>

definition json_loads :: "nat \<Rightarrow> nat \<Rightarrow> pystr \<Rightarrow> py_exc + json" where
  "json_loads depth maxd s =
     (if startswith s [0xFEFF] then Inl JSONDecodeError
      else (case scan_once depth maxd (skip_ws s) of
              Inl e \<Rightarrow> Inl e
            | Inr (v, r) \<Rightarrow> if skip_ws r = [] then Inr v else Inl JSONDecodeError))"

text \<open>\<^verbatim>\<open>parsed.get(key, default)\<close>: only a \<^verbatim>\<open>dict\<close> has the method; on any other
  value the attribute lookup raises \<^verbatim>\<open>AttributeError\<close>.\<close>

definition py_get :: "json \<Rightarrow> pystr \<Rightarrow> json \<Rightarrow> py_exc + json" where
  "py_get parsed key dflt =
     (case parsed of
        JObject kvs \<Rightarrow> Inr (case map_of kvs key of None \<Rightarrow> dflt | Some v \<Rightarrow> v)
      | _ \<Rightarrow> Inl AttributeError)"

subsection \<open>The route \<^verbatim>\<open>POST /analyze-file\<close> (lines 106 to 162)\<close>

text \<open>The uploaded file as the handler reads it. The multipart parser makes an
  upload only of a part that has a file name, so \<open>filename\<close> is a string; the
  declared content type may be missing.\<close>

record upload =
  filename :: pystr
  content_type :: "pystr option"
  body :: "byte list"

definition file_prompt :: "pystr \<Rightarrow> pystr" where
  "file_prompt extracted_text =
     lit ''Here is the extracted text from a lab report or prescription:'' @ [10, 10] @
     extracted_text @ [10, 10] @
     lit ''1) Extract key health metrics (name, value, unit, normal-range if present). '' @
     lit ''Respond as a JSON object with a top-level key 'metrics' (list of objects with name, value, unit, range, normal boolean). '' @ [10] @
     lit ''2) Provide a concise diagnosis summary and recommendations under key 'diagnosis'. '' @ [10, 10] @
     lit ''Return only JSON with keys: metrics and diagnosis.''"

text \<open>The body of the \<^verbatim>\<open>try\<close> of lines 154 to 157: the pair
  \<open>(metrics, diagnosis_text)\<close>, or the exception that leaves it.\<close>

definition parse_reply :: "'img env \<Rightarrow> pystr \<Rightarrow> py_exc + (json \<times> json)" where
  "parse_reply env ai_response =
     (case json_loads (recursion_limit env) (int_max_str_digits env) ai_response of
        Inl e \<Rightarrow> Inl e
      | Inr parsed \<Rightarrow>
          (case py_get parsed (lit ''metrics'') (JArray []) of
             Inl e \<Rightarrow> Inl e
           | Inr metrics \<Rightarrow>
               (case py_get parsed (lit ''diagnosis'') (JString []) of
                  Inl e \<Rightarrow> Inl e
                | Inr diagnosis_text \<Rightarrow> Inr (metrics, diagnosis_text))))"

text \<open>Lines 154 to 160: the \<^verbatim>\<open>try\<close> with its \<^verbatim>\<open>except Exception\<close>, which puts
  the empty list and the reply itself in place of what could not be read.\<close>

definition parse_or_fallback :: "'img env \<Rightarrow> pystr \<Rightarrow> json \<times> json" where
  "parse_or_fallback env ai_response =
     (case parse_reply env ai_response of
        Inr (metrics, diagnosis_text) \<Rightarrow> (metrics, diagnosis_text)
      | Inl e \<Rightarrow> (JArray [], JString ai_response))"

text \<open>Lines 139 to 162: what the handler does with the extracted text.\<close>

definition analyze_extracted ::
  "'img env \<Rightarrow> pystr \<Rightarrow> (abrupt + json) \<times> 'img event list" where
  "analyze_extracted env extracted_text =
     (if strip extracted_text = [] then
        (Inr (JObject [(lit ''error'', JString (lit ''No text could be extracted from the file.''))]), [])
      else
        (case ask_gemini env (file_prompt extracted_text) None of
           (Inl e, calls) \<Rightarrow> (Inl e, calls)
         | (Inr ai_response, calls) \<Rightarrow>
             (Inr (JObject [(lit ''metrics'', fst (parse_or_fallback env ai_response)),
                            (lit ''diagnosis'', snd (parse_or_fallback env ai_response))]),
              calls)))"

text \<open>The two tests of the \<^verbatim>\<open>if\<close> and the first \<^verbatim>\<open>elif\<close>, and the test of the second.\<close>

definition ctype_of :: "upload \<Rightarrow> pystr" where
  "ctype_of file = (case content_type file of None \<Rightarrow> [] | Some c \<Rightarrow> c)"

definition is_text_file :: "'img env \<Rightarrow> upload \<Rightarrow> bool" where
  "is_text_file env file =
     (startswith (ctype_of file) (lit ''text/'') \<or>
      endswith (lower (unicode_lower env) (filename file)) (lit ''.txt''))"

definition is_image_file :: "'img env \<Rightarrow> upload \<Rightarrow> bool" where
  "is_image_file env file =
     (startswith (ctype_of file) (lit ''image/'') \<or>
      endswith_any (lower (unicode_lower env) (filename file))
        [lit ''.png'', lit ''.jpg'', lit ''.jpeg''])"

definition is_pdf_file :: "'img env \<Rightarrow> upload \<Rightarrow> bool" where
  "is_pdf_file env file = endswith (lower (unicode_lower env) (filename file)) (lit ''.pdf'')"

text \<open>The \<^verbatim>\<open>except Exception\<close> clause of lines 126 to 128: what the handler does
  when \<^verbatim>\<open>Image.open\<close> or \<^verbatim>\<open>image_to_string\<close> does not return a value.\<close>

definition ocr_except :: "abrupt \<Rightarrow> abrupt + json" where
  "ocr_except a =
     (case a of
        Raise e \<Rightarrow>
          if derives_from_Exception e
          then Inr (JObject [(lit ''error'', JString (lit ''OCR failed on the uploaded image.''))])
          else Inl (Raise e)
      | NoReturn \<Rightarrow> Inl NoReturn)"

text \<open>
  Lines 116 to 137, the \<^verbatim>\<open>if\<close>/\<^verbatim>\<open>elif\<close> chain: either the handler ends there
  (\<open>Inl\<close>: its response, the exception that leaves it, or no return), or it goes
  on with \<open>extracted_text\<close> (\<open>Inr\<close>). The second component is the calls made.
\<close>

definition extract_text ::
  "'img env \<Rightarrow> upload \<Rightarrow> ((abrupt + json) + pystr) \<times> 'img event list" where
  "extract_text env file =
     (if is_text_file env file then
        (case bytes_decode Replace (body file) of
           Inl e \<Rightarrow> (Inl (Inl (Raise e)), [])
         | Inr extracted_text \<Rightarrow> (Inr extracted_text, []))
      else if is_image_file env file then
        (if OCR_AVAILABLE env then
           (case Image_open env (body file) of
              Inl a \<Rightarrow> (Inl (ocr_except a), [ImageOpen (body file)])
            | Inr img \<Rightarrow>
                (case image_to_string env img of
                   Inl a \<Rightarrow> (Inl (ocr_except a), [ImageOpen (body file), ImageToString img])
                 | Inr extracted_text \<Rightarrow>
                     (Inr extracted_text, [ImageOpen (body file), ImageToString img])))
         else
           (Inl (Inr (JObject [(lit ''error'', JString (lit ''OCR is not available. Install Pillow and pytesseract.''))])), []))
      else if is_pdf_file env file then
        (Inl (Inr (JObject [(lit ''error'', JString (lit ''PDF parsing not enabled. Please convert PDF to text or image.''))])), [])
      else
        (Inl (Inr (JObject [(lit ''error'', JString (lit ''Unsupported file type. Send text or image files.''))])), []))"

text \<open>The handler: the chain, then lines 139 to 162 on the extracted text. The
  calls of the chain come first in the trace.\<close>

definition analyze_file :: "'img env \<Rightarrow> upload \<Rightarrow> (abrupt + json) \<times> 'img event list" where
  "analyze_file env file =
     (case extract_text env file of
        (Inl returned, calls) \<Rightarrow> (returned, calls)
      | (Inr extracted_text, calls) \<Rightarrow>
          (fst (analyze_extracted env extracted_text),
           calls @ snd (analyze_extracted env extracted_text)))"

subsection \<open>From the handler's value to the HTTP response\<close>

text \<open>
  The framework encodes the value a handler returns and sends it with status 200:
  it walks the value (\<^verbatim>\<open>jsonable_encoder\<close>), writes it with
  \<^verbatim>\<open>json.dumps(..., allow_nan=False)\<close> and encodes the text as UTF-8. An exception
  in these steps, or one deriving from \<^verbatim>\<open>Exception\<close> that leaves the handler, is
  answered with status 500. The encoding fails on a \<^verbatim>\<open>float\<close> that is not finite,
  on a string or key with a surrogate code point, and on nesting beyond what the
  encoder's recursion gets through. (The integers of a response come from
  \<^verbatim>\<open>json.loads\<close>, under the digit limit that writing them is under.)
\<close>

text \<open>
  Whether \<^verbatim>\<open>float(x)\<close> is finite, for the text \<open>x\<close> of a number with fraction
  or exponent or of one of the constants: the constants are not, and a number is
  when its magnitude is below \<open>2^1024 - 2^970\<close>, from where on the nearest
  \<^verbatim>\<open>float\<close> is infinity.
\<close>

definition float_is_finite :: "pystr \<Rightarrow> bool" where
  "float_is_finite x =
     (let unsigned = (case x of [] \<Rightarrow> [] | c # cs \<Rightarrow> if c = 0x2D then cs else x);
          ip = takeWhile is_digit unsigned;
          r1 = dropWhile is_digit unsigned;
          fp = (case r1 of [] \<Rightarrow> [] | c # cs \<Rightarrow> if c = 0x2E then takeWhile is_digit cs else []);
          r2 = (case r1 of [] \<Rightarrow> [] | c # cs \<Rightarrow> if c = 0x2E then dropWhile is_digit cs else r1);
          ex = (case r2 of
                  [] \<Rightarrow> 0
                | e # cs \<Rightarrow>
                    (case cs of
                       [] \<Rightarrow> 0
                     | g # ds \<Rightarrow>
                         if g = 0x2D then - digits_value ds
                         else if g = 0x2B then digits_value ds
                         else digits_value cs));
          m = digits_value (ip @ fp);
          e10 = ex - int (length fp)
      in ip \<noteq> [] \<and>
         (if 0 \<le> e10 then m * 10 ^ nat e10 < 2 ^ 1024 - 2 ^ 970
          else m < (2 ^ 1024 - 2 ^ 970) * 10 ^ nat (- e10)))"

text \<open>A string that UTF-8 can encode: no surrogate code point.\<close>

definition encodable :: "pystr \<Rightarrow> bool" where
  "encodable s = list_all (\<lambda>c. \<not> (0xD800 \<le> c \<and> c \<le> 0xDFFF)) s"

fun json_depth :: "json \<Rightarrow> nat" where
  "json_depth (JArray xs) = Suc (foldr (\<lambda>x m. max (json_depth x) m) xs 0)"
| "json_depth (JObject kvs) = Suc (foldr (\<lambda>kv m. max (json_depth (snd kv)) m) kvs 0)"
| "json_depth _ = 0"

fun dumps_accepts :: "json \<Rightarrow> bool" where
  "dumps_accepts (JFloat x) = float_is_finite x"
| "dumps_accepts (JString s) = encodable s"
| "dumps_accepts (JArray xs) = list_all dumps_accepts xs"
| "dumps_accepts (JObject kvs) = list_all (\<lambda>kv. encodable (fst kv) \<and> dumps_accepts (snd kv)) kvs"
| "dumps_accepts _ = True"

definition encodes :: "'img env \<Rightarrow> json \<Rightarrow> bool" where
  "encodes env v = (json_depth v \<le> encoder_limit env \<and> dumps_accepts v)"

datatype http_response = Status200 json | Status500

definition respond :: "'img env \<Rightarrow> abrupt + json \<Rightarrow> abrupt + http_response" where
  "respond env ended =
     (case ended of
        Inr v \<Rightarrow> Inr (if encodes env v then Status200 v else Status500)
      | Inl (Raise e) \<Rightarrow> if derives_from_Exception e then Inr Status500 else Inl (Raise e)
      | Inl NoReturn \<Rightarrow> Inl NoReturn)"

text \<open>The route as a client sees it.\<close>

definition route_analyze_file ::
  "'img env \<Rightarrow> upload \<Rightarrow> (abrupt + http_response) \<times> 'img event list" where
  "route_analyze_file env file =
     (respond env (fst (analyze_file env file)), snd (analyze_file env file))"

subsection \<open>Environments and requests to evaluate the handlers on\<close>

text \<open>An environment whose model answers every prompt the same way, whose OCR
  reads the same text from every image, and with the interpreter's default limits.
  Its lowercase table leaves the code points beyond ASCII as they are.\<close>

definition fixed_env :: "gen_outcome \<Rightarrow> bool \<Rightarrow> pystr \<Rightarrow> unit env" where
  "fixed_env outcome ocr ocr_text =
     \<lparr> OCR_AVAILABLE = ocr,
       generate_content = (\<lambda>p. outcome),
       Image_open = (\<lambda>b. Inr ()),
       image_to_string = (\<lambda>i. Inr ocr_text),
       unicode_lower = (\<lambda>s i. [s ! i]),
       recursion_limit = 1000,
       int_max_str_digits = 4300,
       encoder_limit = 100 \<rparr>"

text \<open>The reply of the specification's example, and the metrics it holds.\<close>

definition glucose_reply :: pystr where
  \<open>glucose_reply = lit ''{"metrics": [{"name":"glucose","value":95,"unit":"mg/dL","range":"70-100","normal":true}], "diagnosis":"normal"}''\<close>

definition glucose_metrics :: json where
  "glucose_metrics =
     JArray [JObject [(lit ''name'', JString (lit ''glucose'')), (lit ''value'', JInt 95),
                      (lit ''unit'', JString (lit ''mg/dL'')), (lit ''range'', JString (lit ''70-100'')),
                      (lit ''normal'', JBool True)]]"

text \<open>The shapes the specification gives the two fields of a successful response:
  an array of objects, and a string.\<close>

fun is_object :: "json \<Rightarrow> bool" where
  "is_object (JObject kvs) = True"
| "is_object _ = False"

fun is_object_array :: "json \<Rightarrow> bool" where
  "is_object_array (JArray xs) = list_all is_object xs"
| "is_object_array _ = False"

fun is_str :: "json \<Rightarrow> bool" where
  "is_str (JString s) = True"
| "is_str _ = False"

section \<open>Properties\<close>

subsection \<open>String methods\<close>

lemma strip_empty_iff: "strip s = [] \<longleftrightarrow> (\<forall>c \<in> set s. is_space c)"
proof -
  have "strip s = [] \<longleftrightarrow> (\<forall>c \<in> set (dropWhile is_space s). is_space c)"
    by (simp add: strip_def dropWhile_eq_Nil_conv)
  also have "\<dots> \<longleftrightarrow> dropWhile is_space s = []"
  proof
    assume all: "\<forall>c \<in> set (dropWhile is_space s). is_space c"
    show "dropWhile is_space s = []"
    proof (rule ccontr)
      assume ne: "dropWhile is_space s \<noteq> []"
      then have "\<not> is_space (hd (dropWhile is_space s))" by (rule hd_dropWhile)
      moreover have "hd (dropWhile is_space s) \<in> set (dropWhile is_space s)"
        using ne by simp
      ultimately show False using all by blast
    qed
  qed (auto dest: set_dropWhileD)
  also have "\<dots> \<longleftrightarrow> (\<forall>c \<in> set s. is_space c)"
    by (simp add: dropWhile_eq_Nil_conv)
  finally show ?thesis .
qed

lemma endswith_iff: "endswith s p \<longleftrightarrow> (\<exists>pre. s = pre @ p)"
proof
  assume "endswith s p"
  then have "s = take (length s - length p) s @ p"
    by (metis append_take_drop_id endswith_def)
  then show "\<exists>pre. s = pre @ p" ..
next
  assume "\<exists>pre. s = pre @ p"
  then show "endswith s p" by (auto simp: endswith_def)
qed

text \<open>Of two suffixes of one string, the shorter is a suffix of the longer.\<close>

lemma endswith_both:
  assumes "endswith s p" "endswith s q" "length q \<le> length p"
  shows "endswith p q"
proof -
  from assms(1) obtain a where a: "s = a @ p" by (auto simp: endswith_iff)
  from assms(2) obtain b where b: "s = b @ q" by (auto simp: endswith_iff)
  from a b have "a @ p = b @ q" by simp
  then obtain us where "a = b @ us \<and> us @ p = q \<or> a @ us = b \<and> p = us @ q"
    by (auto simp: append_eq_append_conv2)
  then show ?thesis
  proof
    assume h: "a = b @ us \<and> us @ p = q"
    with assms(3) have "us = []" by auto
    with h show ?thesis by (simp add: endswith_def)
  next
    assume "a @ us = b \<and> p = us @ q"
    then show ?thesis by (auto simp: endswith_iff)
  qed
qed

text \<open>A name that ends in \<^verbatim>\<open>.pdf\<close> ends in none of the text and image extensions.\<close>

lemma pdf_not_text_image:
  assumes "endswith s (lit ''.pdf'')"
  shows "\<not> endswith s (lit ''.txt'')"
    and "\<not> endswith_any s [lit ''.png'', lit ''.jpg'', lit ''.jpeg'']"
proof -
  have a: "\<not> endswith (lit ''.txt'') (lit ''.pdf'')" "\<not> endswith (lit ''.png'') (lit ''.pdf'')"
     "\<not> endswith (lit ''.jpg'') (lit ''.pdf'')" "\<not> endswith (lit ''.jpeg'') (lit ''.pdf'')"
    by (simp_all add: endswith_def lit_def)
  show "\<not> endswith s (lit ''.txt'')"
    using endswith_both [OF _ assms, of "lit ''.txt''"] a by (auto simp: lit_def)
  show "\<not> endswith_any s [lit ''.png'', lit ''.jpg'', lit ''.jpeg'']"
    using endswith_both [OF _ assms, of "lit ''.png''"] endswith_both [OF _ assms, of "lit ''.jpg''"]
      endswith_both [OF _ assms, of "lit ''.jpeg''"] a
    by (auto simp: endswith_any_def lit_def)
qed

subsection \<open>Decoding with \<^verbatim>\<open>errors="replace"\<close>\<close>

lemma bytes_decode_replace_total: "\<exists>s. bytes_decode Replace bs = Inr s"
proof (induction "Replace" bs rule: bytes_decode.induct)
  case 1
  show ?case by simp
next
  case (2 ch rest)
  show ?case
  proof (cases "utf8_next ch rest")
    case (Decoded c k)
    with 2(1) [OF Decoded] show ?thesis by auto
  next
    case (Invalid k)
    with 2(2) [OF Invalid] show ?thesis by auto
  next
    case Truncated
    then show ?thesis by simp
  qed
qed

text \<open>Where strict decoding succeeds, replacing changes nothing.\<close>

lemma bytes_decode_strict_replace:
  "bytes_decode Strict bs = Inr s \<Longrightarrow> bytes_decode Replace bs = Inr s"
proof (induction bs arbitrary: s rule: length_induct)
  case (1 bs)
  show ?case
  proof (cases bs)
    case Nil
    with 1(2) show ?thesis by simp
  next
    case (Cons ch rest)
    show ?thesis
    proof (cases "utf8_next ch rest")
      case (Decoded c k)
      from 1(2) Cons Decoded obtain s' where
        s': "bytes_decode Strict (drop k rest) = Inr s'" and s: "s = c # s'"
        by (auto split: sum.splits)
      have "length (drop k rest) < length bs" using Cons by simp
      with 1(1) s' have "bytes_decode Replace (drop k rest) = Inr s'" by blast
      with Cons Decoded s show ?thesis by simp
    next
      case (Invalid k)
      with 1(2) Cons show ?thesis by simp
    next
      case Truncated
      with 1(2) Cons show ?thesis by simp
    qed
  qed
qed

text \<open>Where strict decoding raises, the replaced text holds \<open>U+FFFD\<close>.\<close>

lemma bytes_decode_replace_marks:
  "bytes_decode Strict bs = Inl e \<Longrightarrow> \<exists>s. bytes_decode Replace bs = Inr s \<and> 0xFFFD \<in> set s"
proof (induction bs rule: length_induct)
  case (1 bs)
  show ?case
  proof (cases bs)
    case Nil
    with 1(2) show ?thesis by simp
  next
    case (Cons ch rest)
    show ?thesis
    proof (cases "utf8_next ch rest")
      case (Decoded c k)
      from 1(2) Cons Decoded have s': "bytes_decode Strict (drop k rest) = Inl e"
        by (auto split: sum.splits)
      have "length (drop k rest) < length bs" using Cons by simp
      with 1(1) s' obtain s where "bytes_decode Replace (drop k rest) = Inr s" "0xFFFD \<in> set s"
        by blast
      with Cons Decoded show ?thesis by simp
    next
      case (Invalid k)
      obtain s where "bytes_decode Replace (drop k rest) = Inr s"
        using bytes_decode_replace_total by blast
      with Cons Invalid show ?thesis by simp
    next
      case Truncated
      with Cons show ?thesis by simp
    qed
  qed
qed

subsection \<open>The JSON decoder consumes its input\<close>

lemma push_char_Inr:
  "push_char c res = Inr (str, r) \<Longrightarrow> \<exists>str'. res = Inr (str', r)"
  by (auto simp: push_char_def split: sum.splits)

lemma scanstring_shorter: "scanstring cs = Inr (str, r) \<Longrightarrow> length r < length cs"
proof (induction cs arbitrary: str rule: scanstring.induct)
  case 1
  then show ?case by simp
next
  case (2 c cs)
  show ?case
  proof (cases "c = 0x22")
    case True
    with 2(6) show ?thesis by simp
  next
    case nq: False
    show ?thesis
    proof (cases "c = 0x5C")
      case False
      with nq 2(6) obtain str' where "scanstring cs = Inr (str', r)"
        by (auto split: if_splits dest: push_char_Inr)
      with 2(5) [OF nq False] nq False 2(6) show ?thesis
        by (auto split: if_splits)
    next
      case bs: True
      show ?thesis
      proof (cases cs)
        case Nil
        with nq bs 2(6) show ?thesis by simp
      next
        case (Cons esc cs1)
        show ?thesis
        proof (cases "esc = 0x75")
          case False
          with nq bs Cons 2(6) obtain ch where
            ch: "backslash esc = Some ch" "push_char ch (scanstring cs1) = Inr (str, r)"
            by (auto split: option.splits)
          then obtain str' where "scanstring cs1 = Inr (str', r)"
            using push_char_Inr by blast
          note ch(1) this
          with 2(1) [OF nq bs Cons False] show ?thesis using Cons by fastforce
        next
          case u: True
          from nq bs Cons u 2(6) have len: "\<not> length cs1 < 5" by (auto split: if_splits)
          from nq bs Cons u 2(6) len obtain uni where uni: "hex4 (take 4 cs1) = Some uni"
            by (auto split: option.splits)
          let ?pair = "0xD800 \<le> uni \<and> uni \<le> 0xDBFF \<and> 7 \<le> length (drop 4 cs1) \<and>
                       take 2 (drop 4 cs1) = [0x5C, 0x75]"
          show ?thesis
          proof (cases ?pair)
            case False
            with nq bs Cons u len uni 2(6)
            have "push_char uni (scanstring (drop 4 cs1)) = Inr (str, r)" by (auto split: if_splits)
            then obtain str' where s: "scanstring (drop 4 cs1) = Inr (str', r)"
              using push_char_Inr by blast
            from 2(4) [OF nq bs Cons _ len uni False] u s
            have "length r < length (drop 4 cs1)" by simp
            then show ?thesis using Cons by simp
          next
            case True
            with nq bs Cons u len uni 2(6) obtain uni2 where uni2: "hex4 (take 4 (drop 6 cs1)) = Some uni2"
              by (auto split: option.splits)
            show ?thesis
            proof (cases "0xDC00 \<le> uni2 \<and> uni2 \<le> 0xDFFF")
              case low: True
              with nq bs Cons u len uni True uni2 2(6)
              have "push_char (0x10000 + ((uni - 0xD800) * 1024 + (uni2 - 0xDC00)))
                      (scanstring (drop 10 cs1)) = Inr (str, r)" by (auto split: if_splits)
              then obtain str' where s: "scanstring (drop 10 cs1) = Inr (str', r)"
                using push_char_Inr by blast
              from 2(2) [OF nq bs Cons _ len uni True uni2 low] u s
              have "length r < length (drop 10 cs1)" by simp
              then show ?thesis using Cons by simp
            next
              case nolow: False
              with nq bs Cons u len uni True uni2 2(6)
              have "push_char uni (scanstring (drop 4 cs1)) = Inr (str, r)" by (auto split: if_splits)
              then obtain str' where s: "scanstring (drop 4 cs1) = Inr (str', r)"
                using push_char_Inr by blast
              from 2(3) [OF nq bs Cons _ len uni True uni2 nolow] u s
              have "length r < length (drop 4 cs1)" by simp
              then show ?thesis using Cons by simp
            qed
          qed
        qed
      qed
    qed
  qed
qed

lemma match_fraction_le: "length (snd (match_fraction r)) \<le> length r"
  using length_dropWhile_le [of is_digit "tl r"]
  by (auto simp: match_fraction_def split: list.splits)

lemma match_exponent_le: "length (snd (match_exponent r)) \<le> length r"
proof (cases r)
  case Nil
  then show ?thesis by (simp add: match_exponent_def)
next
  case (Cons e r1)
  have "length (dropWhile is_digit (drop n r1)) \<le> length r1" for n
    using length_dropWhile_le [of is_digit "drop n r1"] by simp
  then show ?thesis using Cons by (auto simp: match_exponent_def Let_def le_SucI)
qed

lemma match_number_shorter: "match_number maxd s = Inr (v, r) \<Longrightarrow> length r < length s"
proof -
  assume a: "match_number maxd s = Inr (v, r)"
  define sign where "sign = (case s of [] \<Rightarrow> [] | c # _ \<Rightarrow> if c = 0x2D then [c] else [])"
  from a obtain c cs where s: "drop (length sign) s = c # cs"
    by (cases "drop (length sign) s") (auto simp: match_number_def sign_def Let_def)
  define r0 where "r0 = (if c = 0x30 then cs else dropWhile is_digit cs)"
  have r0: "length r0 \<le> length cs"
    using length_dropWhile_le [of is_digit cs] by (simp add: r0_def)
  from a s have "r = snd (match_exponent (snd (match_fraction r0)))"
    by (auto simp: match_number_def sign_def [symmetric] r0_def Let_def split: if_splits)
  then have "length r \<le> length r0"
    using match_exponent_le [of "snd (match_fraction r0)"] match_fraction_le [of r0] by simp
  with r0 have "length r \<le> length cs" by simp
  moreover from s have "length cs < length s"
    by (metis drop_eq_Nil2 length_Cons length_drop less_Suc_eq_le list.distinct(1) not_le diff_le_self le_trans)
  ultimately show ?thesis by simp
qed

lemma skip_ws_le: "length (skip_ws s) \<le> length s"
  by (simp add: skip_ws_def length_dropWhile_le)

lemma skip_ws_Cons_less: "skip_ws s = c # r \<Longrightarrow> length r < length s"
  using skip_ws_le [of s] by simp

lemmas scan_simps = scan_once.simps parse_array.simps parse_object.simps

lemma scan_once_shorter:
  "scan_once depth maxd s = Inr (v, r) \<Longrightarrow> length r < length s"
  "parse_array depth maxd items s = Inr (v, r) \<Longrightarrow> length r < length s"
  "parse_object depth maxd members s = Inr (v, r) \<Longrightarrow> length r < length s"
proof (induction depth maxd s and depth maxd items s and depth maxd members s
    arbitrary: v r and v r and v r rule: scan_once_parse_array_parse_object.induct)
  case (1 depth maxd s)
  show ?case
  proof (cases s)
    case Nil
    with "1.prems" show ?thesis by (subst (asm) scan_once.simps) simp
  next
    case (Cons c cs)
    note unfolded = "1.prems" [unfolded scan_once.simps [of depth maxd s]]
    consider (str) "c = 0x22" | (obj) "c \<noteq> 0x22" "c = 0x7B" | (arr) "c \<noteq> 0x22" "c \<noteq> 0x7B" "c = 0x5B"
      | (other) "c \<noteq> 0x22" "c \<noteq> 0x7B" "c \<noteq> 0x5B" by blast
    then show ?thesis
    proof cases
      case str
      with unfolded Cons obtain str where "scanstring cs = Inr (str, r)"
        by (auto simp del: scan_simps split: sum.splits)
      from scanstring_shorter [OF this] Cons show ?thesis by simp
    next
      case obj
      from unfolded Cons obj have d: "depth \<noteq> 0" by (auto simp del: scan_simps split: if_splits)
      from unfolded Cons obj d obtain c1 r1 where ws: "skip_ws cs = c1 # r1"
        by (cases "skip_ws cs") (auto simp del: scan_simps)
      show ?thesis
      proof (cases "c1 = 0x7D")
        case True
        with unfolded Cons obj d ws have "r = r1" by (auto simp del: scan_simps)
        with skip_ws_Cons_less [OF ws] Cons show ?thesis by simp
      next
        case False
        with unfolded Cons obj d ws
        have "parse_object (depth - 1) maxd [] (skip_ws cs) = Inr (v, r)"
          by (auto simp del: scan_simps)
        from "1.IH"(1) [OF Cons obj d ws False this] skip_ws_le [of cs] Cons
        show ?thesis by simp
      qed
    next
      case arr
      from unfolded Cons arr have d: "depth \<noteq> 0" by (auto simp del: scan_simps split: if_splits)
      from unfolded Cons arr d obtain c1 r1 where ws: "skip_ws cs = c1 # r1"
        by (cases "skip_ws cs") (auto simp del: scan_simps)
      show ?thesis
      proof (cases "c1 = 0x5D")
        case True
        with unfolded Cons arr d ws have "r = r1" by (auto simp del: scan_simps)
        with skip_ws_Cons_less [OF ws] Cons show ?thesis by simp
      next
        case False
        with unfolded Cons arr d ws
        have "parse_array (depth - 1) maxd [] (skip_ws cs) = Inr (v, r)"
          by (auto simp del: scan_simps)
        from "1.IH"(2) [OF Cons arr d ws False this] skip_ws_le [of cs] Cons
        show ?thesis by simp
      qed
    next
      case other
      with unfolded Cons have
        "(\<exists>n. 0 < n \<and> r = drop n s) \<or> match_number maxd s = Inr (v, r)"
        by (auto simp del: scan_simps split: if_splits)
      then show ?thesis
      proof
        assume "\<exists>n. 0 < n \<and> r = drop n s"
        with Cons show ?thesis by auto
      next
        assume "match_number maxd s = Inr (v, r)"
        then show ?thesis by (rule match_number_shorter)
      qed
    qed
  qed
next
  case (2 depth maxd items s)
  note unfolded = "2.prems" [unfolded parse_array.simps [of depth maxd items s]]
  from unfolded obtain v1 r0 where one: "scan_once depth maxd s = Inr (v1, r0)"
    by (cases "scan_once depth maxd s") (auto simp del: scan_simps)
  from "2.IH"(1) [OF one] have r0: "length r0 < length s" .
  from unfolded one obtain c r1 where ws: "skip_ws r0 = c # r1"
    by (cases "skip_ws r0") (auto simp del: scan_simps)
  have r1: "length r1 < length s" using skip_ws_Cons_less [OF ws] r0 by simp
  show ?case
  proof (cases "c = 0x5D")
    case True
    with unfolded one ws have "r = r1" by (auto simp del: scan_simps)
    with r1 show ?thesis by simp
  next
    case False
    with unfolded one ws have comma: "\<not> c \<noteq> 0x2C" and
      guard: "length (skip_ws r1) < length s" and
      rec: "parse_array depth maxd (items @ [v1]) (skip_ws r1) = Inr (v, r)"
      by (auto simp del: scan_simps split: if_splits)
    from "2.IH"(2) [OF one refl ws False comma guard rec] guard show ?thesis by simp
  qed
next
  case (3 depth maxd members s)
  note unfolded = "3.prems" [unfolded parse_object.simps [of depth maxd members s]]
  from unfolded obtain q cs where s: "s = q # cs" by (cases s) (auto simp del: scan_simps)
  from unfolded s have q: "\<not> q \<noteq> 0x22" by (auto simp del: scan_simps split: if_splits)
  from unfolded s q obtain key r0 where key: "scanstring cs = Inr (key, r0)"
    by (cases "scanstring cs") (auto simp del: scan_simps)
  from unfolded s q key obtain c r1 where ws: "skip_ws r0 = c # r1"
    by (cases "skip_ws r0") (auto simp del: scan_simps)
  from unfolded s q key ws have colon: "\<not> c \<noteq> 0x3A" and
    guard: "\<not> \<not> length (skip_ws r1) < length s"
    by (auto simp del: scan_simps split: if_splits)
  from unfolded s q key ws colon guard obtain v1 r2 where
    one: "scan_once depth maxd (skip_ws r1) = Inr (v1, r2)"
    by (cases "scan_once depth maxd (skip_ws r1)") (auto simp del: scan_simps)
  from "3.IH"(1) [OF s q key refl ws colon guard one] guard
  have r2: "length r2 < length s" by simp
  from unfolded s q key ws colon guard one obtain c2 r3 where ws2: "skip_ws r2 = c2 # r3"
    by (cases "skip_ws r2") (auto simp del: scan_simps)
  have r3: "length r3 < length s" using skip_ws_Cons_less [OF ws2] r2 by simp
  show ?case
  proof (cases "c2 = 0x7D")
    case True
    with unfolded s q key ws colon guard one ws2 have "r = r3" by (auto simp del: scan_simps)
    with r3 show ?thesis by simp
  next
    case False
    with unfolded s q key ws colon guard one ws2 have comma: "\<not> c2 \<noteq> 0x2C" and
      guard2: "length (skip_ws r3) < length s" and
      rec: "parse_object depth maxd (dict_setitem members key v1) (skip_ws r3) = Inr (v, r)"
      by (auto simp del: scan_simps split: if_splits)
    from "3.IH"(2) [OF s q key refl ws colon guard one refl ws2 False comma guard2 rec] guard2
    show ?thesis by simp
  qed
qed

text \<open>Hence the tests that guard the recursive calls of \<open>parse_array\<close> and
  \<open>parse_object\<close> never fail.\<close>

lemma parse_array_guard:
  assumes "scan_once depth maxd s = Inr (v, r)" and "skip_ws r = c # r1"
  shows "length (skip_ws r1) < length s"
  using scan_once_shorter(1) [OF assms(1)] skip_ws_Cons_less [OF assms(2)] skip_ws_le [of r1]
  by simp

lemma parse_object_guards:
  assumes "scanstring cs = Inr (key, r)" and "skip_ws r = c # r1"
  shows "length (skip_ws r1) < length (q # cs)"
    and "scan_once depth maxd (skip_ws r1) = Inr (v, r2) \<Longrightarrow> skip_ws r2 = c2 # r3 \<Longrightarrow>
         length (skip_ws r3) < length (q # cs)"
proof -
  show g: "length (skip_ws r1) < length (q # cs)"
    using scanstring_shorter [OF assms(1)] skip_ws_Cons_less [OF assms(2)] skip_ws_le [of r1]
    by simp
  assume "scan_once depth maxd (skip_ws r1) = Inr (v, r2)" and "skip_ws r2 = c2 # r3"
  from parse_array_guard [OF this] g show "length (skip_ws r3) < length (q # cs)" by simp
qed

subsection \<open>\<^verbatim>\<open>ask_gemini\<close>\<close>

lemma ask_gemini_calls:
  "snd (ask_gemini env prompt system) = [GenerateContent (full_prompt system prompt)]"
  by (simp add: ask_gemini_def)

lemma ask_gemini_settles:
  "(\<exists>text. fst (ask_gemini env prompt system) = Inr text) \<longleftrightarrow>
   settles (generate_content env (full_prompt system prompt))"
  by (cases "generate_content env (full_prompt system prompt)")
     (auto simp: ask_gemini_def ask_gemini_try_def split: option.split)

lemma ask_gemini_returns:
  assumes "settles (generate_content env (full_prompt system prompt))"
  shows "\<exists>text. ask_gemini env prompt system = (Inr text, [GenerateContent (full_prompt system prompt)])"
proof -
  from assms obtain answer where "fst (ask_gemini env prompt system) = Inr answer"
    using ask_gemini_settles by blast
  with ask_gemini_calls [of env prompt system] show ?thesis
    by (cases "ask_gemini env prompt system") simp
qed

lemma ask_gemini_text:
  "generate_content env (full_prompt system prompt) = GenText (Some t) \<Longrightarrow> t \<noteq> [] \<Longrightarrow>
   fst (ask_gemini env prompt system) = Inr (strip t)"
  by (simp add: ask_gemini_def ask_gemini_try_def)

lemma ask_gemini_no_text:
  "generate_content env (full_prompt system prompt) = GenText None \<or>
   generate_content env (full_prompt system prompt) = GenText (Some []) \<Longrightarrow>
   fst (ask_gemini env prompt system) = Inr (lit ''[No response]'')"
  by (auto simp: ask_gemini_def ask_gemini_try_def)

lemma ask_gemini_raises:
  "generate_content env (full_prompt system prompt) = GenRaises e \<Longrightarrow>
   fst (ask_gemini env prompt system) = Inr (lit ''[Gemini error] '' @ e)"
  by (simp add: ask_gemini_def ask_gemini_try_def)

lemma ask_fixed_text:
  "t \<noteq> [] \<Longrightarrow> fst (ask_gemini (fixed_env (GenText (Some t)) ocr ocr_text) prompt system) = Inr (strip t)"
  by (simp add: ask_gemini_def ask_gemini_try_def fixed_env_def)

text \<open>
  As stated, for every behaviour of the external call and any exception, claim C1
  fails: \<^verbatim>\<open>except Exception\<close> takes the exceptions that derive from \<^verbatim>\<open>Exception\<close>
  only. A \<^verbatim>\<open>KeyboardInterrupt\<close> raised while the call waits (its text is empty)
  leaves \<^verbatim>\<open>ask_gemini\<close>, and while the call does not return neither does
  \<^verbatim>\<open>ask_gemini\<close>.
\<close>

theorem ask_gemini_propagates_counterexample:
  "generate_content (fixed_env (GenRaisesBase []) False []) (full_prompt None (lit ''fever''))
     = GenRaisesBase [] \<and>
   fst (ask_gemini (fixed_env (GenRaisesBase []) False []) (lit ''fever'') None)
     = Inl (Raise (BaseRaised [])) \<and>
   generate_content (fixed_env GenHangs False []) (full_prompt None (lit ''fever'')) = GenHangs \<and>
   fst (ask_gemini (fixed_env GenHangs False []) (lit ''fever'') None) = Inl NoReturn"
  by (simp add: ask_gemini_def ask_gemini_try_def fixed_env_def)

text \<open>
  Claim C1, amended. Whatever the prompt and the system instruction: when the
  external call returns, or raises an exception that derives from \<^verbatim>\<open>Exception\<close>,
  \<^verbatim>\<open>ask_gemini\<close> returns a string and no exception leaves it; when the call raises
  such an exception with text \<open>e\<close>, the string is \<^verbatim>\<open>"[Gemini error] "\<close> followed by
  \<open>e\<close>. An exception that does not derive from \<^verbatim>\<open>Exception\<close> leaves \<^verbatim>\<open>ask_gemini\<close>
  as it is, and \<^verbatim>\<open>ask_gemini\<close> does not return when the call does not. In every
  case the call is made once, with the full prompt.
\<close>

theorem ask_gemini_catches_exceptions:
  "(settles (generate_content env (full_prompt system prompt)) \<longrightarrow>
      (\<exists>text. fst (ask_gemini env prompt system) = Inr text)) \<and>
   (\<forall>e. generate_content env (full_prompt system prompt) = GenRaises e \<longrightarrow>
        fst (ask_gemini env prompt system) = Inr (lit ''[Gemini error] '' @ e)) \<and>
   (\<forall>e. generate_content env (full_prompt system prompt) = GenRaisesBase e \<longrightarrow>
        fst (ask_gemini env prompt system) = Inl (Raise (BaseRaised e))) \<and>
   (generate_content env (full_prompt system prompt) = GenHangs \<longrightarrow>
        fst (ask_gemini env prompt system) = Inl NoReturn) \<and>
   snd (ask_gemini env prompt system) = [GenerateContent (full_prompt system prompt)]"
  by (cases "generate_content env (full_prompt system prompt)")
     (auto simp: ask_gemini_def ask_gemini_try_def split: option.split)

theorem ask_gemini_catches_exceptions_witness:
  "generate_content (fixed_env (GenRaises (lit ''429 quota exceeded'')) False [])
     (full_prompt None (lit ''fever'')) = GenRaises (lit ''429 quota exceeded'') \<and>
   settles (generate_content (fixed_env (GenRaises (lit ''429 quota exceeded'')) False [])
     (full_prompt None (lit ''fever''))) \<and>
   ask_gemini (fixed_env (GenRaises (lit ''429 quota exceeded'')) False []) (lit ''fever'') None
     = (Inr (lit ''[Gemini error] '' @ lit ''429 quota exceeded''),
        [GenerateContent (full_prompt None (lit ''fever''))])"
  using ask_gemini_catches_exceptions
    [of "fixed_env (GenRaises (lit ''429 quota exceeded'')) False []" None "lit ''fever''"]
  by (simp add: fixed_env_def prod_eq_iff)

subsection \<open>\<^verbatim>\<open>analyze_text\<close>\<close>

text \<open>
  Claim C5. When the symptom is empty or all whitespace, \<^verbatim>\<open>/analyze\<close> answers with
  the fixed message and makes no external call. For every other symptom it calls
  the model once, and the prompt it sends contains the trimmed symptom; when that
  call returns or raises an exception deriving from \<^verbatim>\<open>Exception\<close>, the handler
  returns a result.
\<close>

theorem analyze_text_blank_or_asks:
  "(list_all is_space symptom \<longrightarrow>
      analyze_text env symptom =
        (Inr (JObject [(lit ''result'', JString (lit ''Please provide a non-empty symptom description.''))]), [])) \<and>
   (\<not> list_all is_space symptom \<longrightarrow>
      snd (analyze_text env symptom) =
        [GenerateContent (full_prompt None (symptom_prompt (strip symptom)))] \<and>
      (settles (generate_content env (full_prompt None (symptom_prompt (strip symptom)))) \<longrightarrow>
         (\<exists>answer. analyze_text env symptom =
            (Inr (JObject [(lit ''result'', JString answer)]),
             [GenerateContent (full_prompt None (symptom_prompt (strip symptom)))]))) \<and>
      (\<exists>pre post. full_prompt None (symptom_prompt (strip symptom)) = pre @ strip symptom @ post))"
proof (intro conjI impI)
  assume "list_all is_space symptom"
  then have "strip symptom = []" by (simp add: strip_empty_iff list_all_iff)
  then show "analyze_text env symptom =
        (Inr (JObject [(lit ''result'', JString (lit ''Please provide a non-empty symptom description.''))]), [])"
    by (simp add: analyze_text_def)
next
  assume "\<not> list_all is_space symptom"
  then have ne: "strip symptom \<noteq> []" by (simp add: strip_empty_iff list_all_iff)
  with ask_gemini_calls [of env "symptom_prompt (strip symptom)" None]
  show "snd (analyze_text env symptom) =
        [GenerateContent (full_prompt None (symptom_prompt (strip symptom)))]"
    by (cases "ask_gemini env (symptom_prompt (strip symptom)) None")
       (simp add: analyze_text_def Let_def split: sum.split)
next
  assume "\<not> list_all is_space symptom"
    and "settles (generate_content env (full_prompt None (symptom_prompt (strip symptom))))"
  then have ne: "strip symptom \<noteq> []"
    and "\<exists>answer. ask_gemini env (symptom_prompt (strip symptom)) None =
       (Inr answer, [GenerateContent (full_prompt None (symptom_prompt (strip symptom)))])"
    by (simp_all add: strip_empty_iff list_all_iff ask_gemini_returns)
  then obtain answer where
    "ask_gemini env (symptom_prompt (strip symptom)) None =
       (Inr answer, [GenerateContent (full_prompt None (symptom_prompt (strip symptom)))])"
    by blast
  with ne show "\<exists>answer. analyze_text env symptom =
         (Inr (JObject [(lit ''result'', JString answer)]),
          [GenerateContent (full_prompt None (symptom_prompt (strip symptom)))])"
    by (simp add: analyze_text_def)
next
  have "full_prompt None (symptom_prompt (strip symptom)) =
          (system_or_default None @ [10, 10] @ lit ''User input:'' @ [10] @
           lit ''User symptom description:'' @ [10, 10]) @ strip symptom @
          drop (length (lit ''User symptom description:'' @ [10, 10] @ strip symptom))
            (symptom_prompt (strip symptom))"
    by (simp add: full_prompt_def symptom_prompt_def)
  then show "\<exists>pre post. full_prompt None (symptom_prompt (strip symptom)) = pre @ strip symptom @ post"
    by blast
qed

theorem analyze_text_blank_or_asks_witness:
  "list_all is_space [32, 9, 10] \<and>
   analyze_text (fixed_env (GenText (Some (lit ''Rest and fluids.''))) False []) [32, 9, 10] =
     (Inr (JObject [(lit ''result'', JString (lit ''Please provide a non-empty symptom description.''))]), []) \<and>
   \<not> list_all is_space (lit '' fever '') \<and>
   settles (generate_content (fixed_env (GenText (Some (lit ''Rest and fluids.''))) False [])
     (full_prompt None (symptom_prompt (strip (lit '' fever ''))))) \<and>
   analyze_text (fixed_env (GenText (Some (lit ''Rest and fluids.''))) False []) (lit '' fever '') =
     (Inr (JObject [(lit ''result'', JString (lit ''Rest and fluids.''))]),
      [GenerateContent (full_prompt None (symptom_prompt (lit ''fever'')))])"
proof -
  let ?E = "fixed_env (GenText (Some (lit ''Rest and fluids.''))) False [] :: unit env"
  have b: "list_all is_space [32, 9, 10]" by (simp add: is_space_def)
  have n: "\<not> list_all is_space (lit '' fever '')" by (simp add: is_space_def lit_def)
  have s: "strip (lit '' fever '') = lit ''fever''" by (simp add: strip_def is_space_def lit_def)
  have fe: "lit ''fever'' \<noteq> []" by (simp add: lit_def)
  have r: "lit ''Rest and fluids.'' \<noteq> []" by (simp add: lit_def)
  have sr: "strip (lit ''Rest and fluids.'') = lit ''Rest and fluids.''"
    by (simp add: strip_def is_space_def lit_def)
  have g: "settles (generate_content ?E (full_prompt None (symptom_prompt (strip (lit '' fever '')))))"
    by (simp add: fixed_env_def)
  have ans: "fst (ask_gemini ?E (symptom_prompt (lit ''fever'')) None) = Inr (lit ''Rest and fluids.'')"
    using ask_fixed_text [OF r] by (simp add: sr)
  from analyze_text_blank_or_asks [of "[32, 9, 10]" ?E] b
  have one: "analyze_text ?E [32, 9, 10] =
     (Inr (JObject [(lit ''result'', JString (lit ''Please provide a non-empty symptom description.''))]), [])"
    by blast
  from analyze_text_blank_or_asks [of "lit '' fever ''" ?E] n g obtain answer where
    a: "analyze_text ?E (lit '' fever '') =
         (Inr (JObject [(lit ''result'', JString answer)]),
          [GenerateContent (full_prompt None (symptom_prompt (strip (lit '' fever ''))))])"
    by blast
  have "fst (analyze_text ?E (lit '' fever '')) = Inr (JObject [(lit ''result'', JString (lit ''Rest and fluids.''))])"
    using ans fe
    by (cases "ask_gemini ?E (symptom_prompt (lit ''fever'')) None") (simp add: analyze_text_def s)
  with a have "answer = lit ''Rest and fluids.''" by simp
  with a s have two: "analyze_text ?E (lit '' fever '') =
     (Inr (JObject [(lit ''result'', JString (lit ''Rest and fluids.''))]),
      [GenerateContent (full_prompt None (symptom_prompt (lit ''fever'')))])" by simp
  from b n g one two show ?thesis by simp
qed

subsection \<open>\<^verbatim>\<open>analyze_file\<close>: the branches and the reply\<close>

lemma analyze_extracted_returns:
  assumes "strip t = [] \<or> settles (generate_content env (full_prompt None (file_prompt t)))"
  shows "\<exists>res. fst (analyze_extracted env t) = Inr res"
proof (cases "strip t = []")
  case True
  then show ?thesis by (simp add: analyze_extracted_def)
next
  case False
  with assms ask_gemini_returns [of env None "file_prompt t"] show ?thesis
    by (auto simp: analyze_extracted_def)
qed

lemma analyze_extracted_no_exception:
  assumes "fst (analyze_extracted env t) = Inl (Raise e)"
  shows "\<not> derives_from_Exception e"
proof (cases "generate_content env (full_prompt None (file_prompt t))")
  case (GenRaises x)
  with assms show ?thesis
    by (simp add: analyze_extracted_def ask_gemini_def ask_gemini_try_def split: if_splits)
next
  case (GenText x)
  with assms show ?thesis
    by (simp add: analyze_extracted_def ask_gemini_def ask_gemini_try_def split: if_splits option.splits)
next
  case (GenRaisesBase x)
  with assms show ?thesis
    by (auto simp: analyze_extracted_def ask_gemini_def ask_gemini_try_def split: if_splits)
next
  case GenHangs
  with assms show ?thesis
    by (simp add: analyze_extracted_def ask_gemini_def ask_gemini_try_def split: if_splits)
qed

lemma analyze_extracted_asks:
  assumes "strip t \<noteq> []" "fst (ask_gemini env (file_prompt t) None) = Inr reply"
  shows "analyze_extracted env t =
           (Inr (JObject [(lit ''metrics'', fst (parse_or_fallback env reply)),
                          (lit ''diagnosis'', snd (parse_or_fallback env reply))]),
            [GenerateContent (full_prompt None (file_prompt t))])"
  using assms ask_gemini_calls [of env "file_prompt t" None]
  by (cases "ask_gemini env (file_prompt t) None") (simp add: analyze_extracted_def)

lemma analyze_extracted_blank:
  "strip t = [] \<Longrightarrow> analyze_extracted env t =
     (Inr (JObject [(lit ''error'', JString (lit ''No text could be extracted from the file.''))]), [])"
  by (simp add: analyze_extracted_def)

lemma extract_text_text:
  "is_text_file env file \<Longrightarrow> bytes_decode Replace (body file) = Inr t \<Longrightarrow>
   extract_text env file = (Inr t, [])"
  by (simp add: extract_text_def)

lemma extract_text_returned:
  assumes "fst (extract_text env file) = Inl returned"
  shows "(\<exists>e. returned = Inl e) \<or> (\<exists>msg. returned = Inr (JObject [(lit ''error'', msg)]))"
  using assms
  by (auto simp: extract_text_def ocr_except_def split: if_splits sum.splits abrupt.splits)

lemma analyze_file_text:
  "is_text_file env file \<Longrightarrow> bytes_decode Replace (body file) = Inr t \<Longrightarrow>
   analyze_file env file = analyze_extracted env t"
  by (simp add: analyze_file_def extract_text_text)

lemma analyze_file_no_ocr:
  "\<not> is_text_file env file \<Longrightarrow> is_image_file env file \<Longrightarrow> \<not> OCR_AVAILABLE env \<Longrightarrow>
   analyze_file env file =
     (Inr (JObject [(lit ''error'', JString (lit ''OCR is not available. Install Pillow and pytesseract.''))]), [])"
  by (simp add: analyze_file_def extract_text_def)

lemma analyze_file_ocr:
  "\<not> is_text_file env file \<Longrightarrow> is_image_file env file \<Longrightarrow> OCR_AVAILABLE env \<Longrightarrow>
   Image_open env (body file) = Inr img \<Longrightarrow> image_to_string env img = Inr t \<Longrightarrow>
   analyze_file env file =
     (fst (analyze_extracted env t),
      [ImageOpen (body file), ImageToString img] @ snd (analyze_extracted env t))"
  by (simp add: analyze_file_def extract_text_def)

lemma analyze_file_pdf:
  "\<not> is_text_file env file \<Longrightarrow> \<not> is_image_file env file \<Longrightarrow> is_pdf_file env file \<Longrightarrow>
   analyze_file env file =
     (Inr (JObject [(lit ''error'', JString (lit ''PDF parsing not enabled. Please convert PDF to text or image.''))]), [])"
  by (simp add: analyze_file_def extract_text_def)

lemma analyze_file_unsupported:
  "\<not> is_text_file env file \<Longrightarrow> \<not> is_image_file env file \<Longrightarrow> \<not> is_pdf_file env file \<Longrightarrow>
   analyze_file env file =
     (Inr (JObject [(lit ''error'', JString (lit ''Unsupported file type. Send text or image files.''))]), [])"
  by (simp add: analyze_file_def extract_text_def)

lemma py_get_fails_iff: "(\<exists>e. py_get v key dflt = Inl e) \<longleftrightarrow> (\<forall>kvs. v \<noteq> JObject kvs)"
  by (cases v) (simp_all add: py_get_def)

lemma parse_or_fallback_object:
  "json_loads (recursion_limit env) (int_max_str_digits env) reply = Inr (JObject kvs) \<Longrightarrow>
   parse_or_fallback env reply =
     (case map_of kvs (lit ''metrics'') of None \<Rightarrow> JArray [] | Some v \<Rightarrow> v,
      case map_of kvs (lit ''diagnosis'') of None \<Rightarrow> JString [] | Some v \<Rightarrow> v)"
  by (simp add: parse_or_fallback_def parse_reply_def py_get_def)

lemma parse_or_fallback_other:
  "\<forall>kvs. json_loads (recursion_limit env) (int_max_str_digits env) reply \<noteq> Inr (JObject kvs) \<Longrightarrow>
   parse_or_fallback env reply = (JArray [], JString reply)"
  by (cases "json_loads (recursion_limit env) (int_max_str_digits env) reply")
     (auto simp: parse_or_fallback_def parse_reply_def py_get_def split: json.splits)

lemma analyze_file_asks:
  assumes "fst (extract_text env file) = Inr t" and "strip t \<noteq> []"
    and "fst (ask_gemini env (file_prompt t) None) = Inr reply"
  shows "analyze_file env file =
           (Inr (JObject [(lit ''metrics'', fst (parse_or_fallback env reply)),
                          (lit ''diagnosis'', snd (parse_or_fallback env reply))]),
            snd (extract_text env file) @ [GenerateContent (full_prompt None (file_prompt t))])"
  using assms(1) analyze_extracted_asks [OF assms(2,3)]
  by (cases "extract_text env file") (simp add: analyze_file_def)

lemma analyze_file_asked:
  assumes "fst (analyze_file env file) = Inr (JObject [(lit ''metrics'', m), (lit ''diagnosis'', d)])"
  shows "\<exists>t reply. fst (extract_text env file) = Inr t \<and> strip t \<noteq> [] \<and>
           fst (ask_gemini env (file_prompt t) None) = Inr reply"
proof -
  have keys: "lit ''error'' \<noteq> lit ''metrics''" by (simp add: lit_def)
  obtain x calls where x: "extract_text env file = (x, calls)" by (cases "extract_text env file")
  show ?thesis
  proof (cases x)
    case (Inl returned)
    with x have "fst (analyze_file env file) = returned" by (simp add: analyze_file_def)
    moreover from x Inl have "fst (extract_text env file) = Inl returned" by simp
    then have "(\<exists>e. returned = Inl e) \<or> (\<exists>msg. returned = Inr (JObject [(lit ''error'', msg)]))"
      by (rule extract_text_returned)
    ultimately show ?thesis using assms keys by auto
  next
    case (Inr t)
    with x have t: "fst (extract_text env file) = Inr t" by simp
    from x Inr have a: "fst (analyze_file env file) = fst (analyze_extracted env t)"
      by (simp add: analyze_file_def)
    have ne: "strip t \<noteq> []"
    proof
      assume "strip t = []"
      from analyze_extracted_blank [OF this, of env] a assms keys
      show False by simp
    qed
    obtain r calls' where r: "ask_gemini env (file_prompt t) None = (r, calls')"
      by (cases "ask_gemini env (file_prompt t) None")
    have "\<exists>reply. r = Inr reply"
    proof (cases r)
      case (Inl e)
      with r ne a assms show ?thesis by (simp add: analyze_extracted_def)
    next
      case (Inr reply)
      then show ?thesis by blast
    qed
    with r t ne show ?thesis by auto
  qed
qed

subsection \<open>The response\<close>

lemma encodable_lit: "encodable (lit ''metrics'')" "encodable (lit ''diagnosis'')"
  by (simp_all add: encodable_def lit_def)

lemma respond_returned:
  "fst (analyze_file env file) = Inr v \<Longrightarrow>
   fst (route_analyze_file env file) = Inr (if encodes env v then Status200 v else Status500)"
  by (simp add: route_analyze_file_def respond_def)

lemma encodes_fallback:
  "encodes env (JObject [(lit ''metrics'', JArray []), (lit ''diagnosis'', JString reply)]) \<longleftrightarrow>
   encodable reply \<and> 2 \<le> encoder_limit env"
  by (auto simp: encodes_def encodable_lit)


subsection \<open>The handlers on the example requests\<close>

lemma decode_glucose: "bytes_decode Replace (blit ''glucose 95'') = Inr (lit ''glucose 95'')"
  by (simp add: blit_def lit_def utf8_next_def is_cont_def)

lemma strip_glucose: "strip (lit ''glucose 95'') = lit ''glucose 95''"
  by (simp add: strip_def is_space_def lit_def)

lemma strip_glucose_ne: "strip (lit ''glucose 95'') \<noteq> []"
  unfolding strip_glucose by (simp add: lit_def)

lemma extract_glucose_txt:
  "extract_text (fixed_env outcome ocr ocr_text)
     \<lparr>filename = lit ''report.txt'', content_type = Some (lit ''text/plain''), body = blit ''glucose 95''\<rparr> =
     (Inr (lit ''glucose 95''), [])"
proof -
  have "is_text_file (fixed_env outcome ocr ocr_text)
     \<lparr>filename = lit ''report.txt'', content_type = Some (lit ''text/plain''), body = blit ''glucose 95''\<rparr>"
    by (simp add: is_text_file_def ctype_of_def startswith_def lit_def)
  then show ?thesis using decode_glucose by (simp add: extract_text_text)
qed

lemma strip_cannot: "strip (lit ''I cannot parse this.'') = lit ''I cannot parse this.''"
  by (simp add: strip_def is_space_def lit_def)

lemma loads_cannot: "json_loads depth maxd (lit ''I cannot parse this.'') = Inl JSONDecodeError"
  by (simp add: json_loads_def lit_def startswith_def skip_ws_def is_ws_def match_number_def is_digit_def)

lemma fallback_cannot:
  "parse_or_fallback env (lit ''I cannot parse this.'') = (JArray [], JString (lit ''I cannot parse this.''))"
  by (simp add: parse_or_fallback_def parse_reply_def loads_cannot)

lemma glucose_cannot:
  "analyze_extracted (fixed_env (GenText (Some (lit ''I cannot parse this.''))) ocr ocr_text) (lit ''glucose 95'') =
     (Inr (JObject [(lit ''metrics'', JArray []), (lit ''diagnosis'', JString (lit ''I cannot parse this.''))]),
      [GenerateContent (full_prompt None (file_prompt (lit ''glucose 95'')))])"
proof -
  have ne: "lit ''I cannot parse this.'' \<noteq> []" by (simp add: lit_def)
  have nb: "strip (lit ''glucose 95'') \<noteq> []" unfolding strip_glucose by (simp add: lit_def)
  have a: "fst (ask_gemini (fixed_env (GenText (Some (lit ''I cannot parse this.''))) ocr ocr_text)
                 (file_prompt (lit ''glucose 95'')) None) = Inr (lit ''I cannot parse this.'')"
    using ask_fixed_text [OF ne] by (simp add: strip_cannot)
  show ?thesis using analyze_extracted_asks [OF nb a] by (simp add: fallback_cannot)
qed

lemma strip_glucose_reply: "strip glucose_reply = glucose_reply"
  by (simp add: glucose_reply_def strip_def is_space_def lit_def)

lemma loads_glucose:
  assumes "3 \<le> depth" and "maxd \<noteq> 1"
  shows "json_loads depth maxd glucose_reply =
     Inr (JObject [(lit ''metrics'', glucose_metrics), (lit ''diagnosis'', JString (lit ''normal''))])"
proof -
  from assms(1) obtain d where d: "depth = Suc (Suc (Suc d))"
    by (metis add_2_eq_Suc' le_Suc_ex numeral_3_eq_3 add_Suc)
  have m: "(0 < maxd \<and> maxd < Suc (Suc 0)) = False" using assms(2) by auto
  show ?thesis
    unfolding d glucose_reply_def glucose_metrics_def
    by (simp add: m json_loads_def lit_def startswith_def skip_ws_def is_ws_def is_digit_def
        match_number_def match_fraction_def match_exponent_def push_char_def digits_value_def)
qed

lemma loads_array: "json_loads (Suc depth) maxd (lit ''[1, 2]'') = Inr (JArray [JInt 1, JInt 2])"
proof -
  have m: "(0 < maxd \<and> maxd = 0) = False" by auto
  show ?thesis
    by (simp add: m json_loads_def lit_def startswith_def skip_ws_def is_ws_def is_digit_def
        match_number_def match_fraction_def match_exponent_def push_char_def digits_value_def)
qed

lemma loads_five_null:
  \<open>json_loads (Suc depth) maxd (lit ''{"metrics": 5, "diagnosis": null}'') =
     Inr (JObject [(lit ''metrics'', JInt 5), (lit ''diagnosis'', JNull)])\<close>
proof -
  have m: "(0 < maxd \<and> maxd = 0) = False" by auto
  show ?thesis
    by (simp add: m json_loads_def lit_def startswith_def skip_ws_def is_ws_def is_digit_def
        match_number_def match_fraction_def match_exponent_def push_char_def digits_value_def)
qed


lemma strip_padded: "strip (lit '' I cannot parse this. '') = lit ''I cannot parse this.''"
  by (simp add: strip_def is_space_def lit_def)

lemma loads_padded: "json_loads depth maxd (lit '' I cannot parse this. '') = Inl JSONDecodeError"
  by (simp add: json_loads_def lit_def startswith_def skip_ws_def is_ws_def match_number_def is_digit_def)

subsection \<open>Claims about \<^verbatim>\<open>analyze_file\<close>\<close>

text \<open>
  As stated, with "regardless of the declared content type", claim C2 fails: a file
  named \<^verbatim>\<open>report.pdf\<close> and declared \<^verbatim>\<open>text/plain\<close> is taken by the text test, which
  comes first; its bytes are decoded and sent to the model.
\<close>

theorem pdf_name_text_type_counterexample:
  "is_pdf_file (fixed_env (GenText (Some (lit ''I cannot parse this.''))) False [])
     \<lparr>filename = lit ''report.pdf'', content_type = Some (lit ''text/plain''), body = blit ''glucose 95''\<rparr> \<and>
   analyze_file (fixed_env (GenText (Some (lit ''I cannot parse this.''))) False [])
     \<lparr>filename = lit ''report.pdf'', content_type = Some (lit ''text/plain''), body = blit ''glucose 95''\<rparr> =
     (Inr (JObject [(lit ''metrics'', JArray []), (lit ''diagnosis'', JString (lit ''I cannot parse this.''))]),
      [GenerateContent (full_prompt None (file_prompt (lit ''glucose 95'')))])"
proof -
  let ?E = "fixed_env (GenText (Some (lit ''I cannot parse this.''))) False [] :: unit env"
  let ?F = "\<lparr>filename = lit ''report.pdf'', content_type = Some (lit ''text/plain''), body = blit ''glucose 95''\<rparr>"
  have pdf: "is_pdf_file ?E ?F"
    by (simp add: is_pdf_file_def fixed_env_def lower_def lower_at_def lit_def upt_rec endswith_def)
  have istext: "is_text_file ?E ?F"
    by (simp add: is_text_file_def ctype_of_def startswith_def lit_def)
  have "analyze_file ?E ?F = analyze_extracted ?E (lit ''glucose 95'')"
    using analyze_file_text [OF istext] decode_glucose by simp
  with pdf show ?thesis by (simp add: glucose_cannot)
qed

text \<open>
  Claim C2, amended. For every upload whose file name ends in \<^verbatim>\<open>.pdf\<close>, in any
  letter case, and whose declared content type starts with neither \<^verbatim>\<open>text/\<close> nor
  \<^verbatim>\<open>image/\<close>, whatever its bytes, the response is exactly the PDF error and no
  external call is made.
\<close>

theorem pdf_rejected_unless_typed_text_or_image:
  assumes "is_pdf_file env file"
    and "\<not> startswith (ctype_of file) (lit ''text/'')"
    and "\<not> startswith (ctype_of file) (lit ''image/'')"
  shows "analyze_file env file =
     (Inr (JObject [(lit ''error'', JString (lit ''PDF parsing not enabled. Please convert PDF to text or image.''))]), [])"
proof -
  from assms(1) have e: "endswith (lower (unicode_lower env) (filename file)) (lit ''.pdf'')"
    by (simp add: is_pdf_file_def)
  have "\<not> is_text_file env file"
    using assms(2) pdf_not_text_image(1) [OF e] by (simp add: is_text_file_def)
  moreover have "\<not> is_image_file env file"
    using assms(3) pdf_not_text_image(2) [OF e] by (simp add: is_image_file_def)
  ultimately show ?thesis using assms(1) by (rule analyze_file_pdf)
qed

theorem pdf_rejected_unless_typed_text_or_image_witness:
  "is_pdf_file (fixed_env (GenText (Some (lit ''I cannot parse this.''))) True (lit ''glucose 95''))
     \<lparr>filename = lit ''Report.PDF'', content_type = Some (lit ''application/pdf''), body = blit ''%PDF-1.4''\<rparr> \<and>
   \<not> startswith (ctype_of \<lparr>filename = lit ''Report.PDF'', content_type = Some (lit ''application/pdf''), body = blit ''%PDF-1.4''\<rparr>) (lit ''text/'') \<and>
   \<not> startswith (ctype_of \<lparr>filename = lit ''Report.PDF'', content_type = Some (lit ''application/pdf''), body = blit ''%PDF-1.4''\<rparr>) (lit ''image/'') \<and>
   analyze_file (fixed_env (GenText (Some (lit ''I cannot parse this.''))) True (lit ''glucose 95''))
     \<lparr>filename = lit ''Report.PDF'', content_type = Some (lit ''application/pdf''), body = blit ''%PDF-1.4''\<rparr> =
     (Inr (JObject [(lit ''error'', JString (lit ''PDF parsing not enabled. Please convert PDF to text or image.''))]), [])"
proof -
  let ?E = "fixed_env (GenText (Some (lit ''I cannot parse this.''))) True (lit ''glucose 95'') :: unit env"
  let ?F = "\<lparr>filename = lit ''Report.PDF'', content_type = Some (lit ''application/pdf''), body = blit ''%PDF-1.4''\<rparr>"
  have pdf: "is_pdf_file ?E ?F"
    by (simp add: is_pdf_file_def fixed_env_def lower_def lower_at_def lit_def upt_rec endswith_def)
  have t: "\<not> startswith (ctype_of ?F) (lit ''text/'')"
    by (simp add: ctype_of_def startswith_def lit_def)
  have i: "\<not> startswith (ctype_of ?F) (lit ''image/'')"
    by (simp add: ctype_of_def startswith_def lit_def)
  from pdf t i pdf_rejected_unless_typed_text_or_image [OF pdf t i] show ?thesis by simp
qed

text \<open>
  As stated, of the model's reply and the route's response, claim C3 fails:
  \<^verbatim>\<open>ask_gemini\<close> strips the reply before the handler reads it. The reply
  \<^verbatim>\<open>" I cannot parse this. "\<close>, with a space at either end, is no JSON, and the
  diagnosis of the response is not that text: it has lost the two spaces.
\<close>

theorem padded_reply_counterexample:
  "generate_content (fixed_env (GenText (Some (lit '' I cannot parse this. ''))) False [])
     (full_prompt None (file_prompt (lit ''glucose 95''))) = GenText (Some (lit '' I cannot parse this. '')) \<and>
   json_loads (recursion_limit (fixed_env (GenText (Some (lit '' I cannot parse this. ''))) False []))
     (int_max_str_digits (fixed_env (GenText (Some (lit '' I cannot parse this. ''))) False []))
     (lit '' I cannot parse this. '') = Inl JSONDecodeError \<and>
   route_analyze_file (fixed_env (GenText (Some (lit '' I cannot parse this. ''))) False [])
     \<lparr>filename = lit ''report.txt'', content_type = Some (lit ''text/plain''), body = blit ''glucose 95''\<rparr> =
     (Inr (Status200 (JObject [(lit ''metrics'', JArray []),
                               (lit ''diagnosis'', JString (lit ''I cannot parse this.''))])),
      [GenerateContent (full_prompt None (file_prompt (lit ''glucose 95'')))]) \<and>
   lit ''I cannot parse this.'' \<noteq> lit '' I cannot parse this. ''"
proof -
  let ?T = "lit '' I cannot parse this. ''"
  let ?E = "fixed_env (GenText (Some ?T)) False [] :: unit env"
  let ?F = "\<lparr>filename = lit ''report.txt'', content_type = Some (lit ''text/plain''), body = blit ''glucose 95''\<rparr>"
  have g: "generate_content ?E (full_prompt None (file_prompt (lit ''glucose 95''))) = GenText (Some ?T)"
    by (simp add: fixed_env_def)
  have x: "fst (extract_text ?E ?F) = Inr (lit ''glucose 95'')" "snd (extract_text ?E ?F) = []"
    by (simp_all add: extract_glucose_txt)
  have ne: "?T \<noteq> []" by (simp add: lit_def)
  have ask: "fst (ask_gemini ?E (file_prompt (lit ''glucose 95'')) None) = Inr (lit ''I cannot parse this.'')"
    using ask_fixed_text [OF ne] by (simp add: strip_padded)
  have a: "analyze_file ?E ?F =
     (Inr (JObject [(lit ''metrics'', JArray []), (lit ''diagnosis'', JString (lit ''I cannot parse this.''))]),
      [GenerateContent (full_prompt None (file_prompt (lit ''glucose 95'')))])"
    using analyze_file_asks [OF x(1) strip_glucose_ne ask] x(2) by (simp add: fallback_cannot)
  have enc: "encodes ?E (JObject [(lit ''metrics'', JArray []),
                                  (lit ''diagnosis'', JString (lit ''I cannot parse this.''))])"
    unfolding encodes_fallback by (simp add: encodable_def lit_def fixed_env_def)
  have r: "route_analyze_file ?E ?F =
     (Inr (Status200 (JObject [(lit ''metrics'', JArray []),
                               (lit ''diagnosis'', JString (lit ''I cannot parse this.''))])),
      [GenerateContent (full_prompt None (file_prompt (lit ''glucose 95'')))])"
    using a enc by (simp add: route_analyze_file_def respond_def)
  have d: "lit ''I cannot parse this.'' \<noteq> lit '' I cannot parse this. ''" by (simp add: lit_def)
  from g loads_padded r d show ?thesis by simp
qed

text \<open>
  Claim C3, amended. For a request that reaches the model call (text was extracted
  and is not blank), take as the reply the string \<^verbatim>\<open>ask_gemini\<close> returns: the
  model's text without the whitespace around it, or \<^verbatim>\<open>[No response]\<close> when the
  model gave no text or the empty text. If that string does not parse as JSON, or
  parses to a value whose \<^verbatim>\<open>.get\<close> lookup fails, the handler returns the empty list
  as metrics and that string as diagnosis, and the route answers with them and
  status 200 when the string has no surrogate code point (and the encoder gets
  through two levels of nesting), with status 500 otherwise. The model text
  \<^verbatim>\<open>I cannot parse this.\<close> gives exactly the empty list and that text.
\<close>

theorem unparseable_reply_falls_back:
  assumes "fst (extract_text env file) = Inr t" and "strip t \<noteq> []"
  shows "(\<forall>reply e v.
            fst (ask_gemini env (file_prompt t) None) = Inr reply \<and>
            (json_loads (recursion_limit env) (int_max_str_digits env) reply = Inl e \<or>
             json_loads (recursion_limit env) (int_max_str_digits env) reply = Inr v \<and>
             py_get v (lit ''metrics'') (JArray []) = Inl e) \<longrightarrow>
            fst (analyze_file env file) =
              Inr (JObject [(lit ''metrics'', JArray []), (lit ''diagnosis'', JString reply)]) \<and>
            fst (route_analyze_file env file) =
              Inr (if encodable reply \<and> 2 \<le> encoder_limit env
                   then Status200 (JObject [(lit ''metrics'', JArray []), (lit ''diagnosis'', JString reply)])
                   else Status500)) \<and>
         (\<forall>reply. generate_content env (full_prompt None (file_prompt t)) = GenText reply \<longrightarrow>
            fst (ask_gemini env (file_prompt t) None) =
              Inr (case reply of
                     None \<Rightarrow> lit ''[No response]''
                   | Some s \<Rightarrow> if s = [] then lit ''[No response]'' else strip s)) \<and>
         (generate_content env (full_prompt None (file_prompt t)) =
            GenText (Some (lit ''I cannot parse this.'')) \<longrightarrow>
            fst (analyze_file env file) =
              Inr (JObject [(lit ''metrics'', JArray []),
                            (lit ''diagnosis'', JString (lit ''I cannot parse this.''))])) \<and>
         (generate_content env (full_prompt None (file_prompt t)) =
            GenText (Some (lit ''I cannot parse this.'')) \<and> 2 \<le> encoder_limit env \<longrightarrow>
            fst (route_analyze_file env file) =
              Inr (Status200 (JObject [(lit ''metrics'', JArray []),
                                       (lit ''diagnosis'', JString (lit ''I cannot parse this.''))])))"
proof -
  have one: "fst (analyze_file env file) =
              Inr (JObject [(lit ''metrics'', JArray []), (lit ''diagnosis'', JString reply)]) \<and>
            fst (route_analyze_file env file) =
              Inr (if encodable reply \<and> 2 \<le> encoder_limit env
                   then Status200 (JObject [(lit ''metrics'', JArray []), (lit ''diagnosis'', JString reply)])
                   else Status500)"
    if h: "fst (ask_gemini env (file_prompt t) None) = Inr reply \<and>
            (json_loads (recursion_limit env) (int_max_str_digits env) reply = Inl e \<or>
             json_loads (recursion_limit env) (int_max_str_digits env) reply = Inr v \<and>
             py_get v (lit ''metrics'') (JArray []) = Inl e)" for reply e v
  proof -
    from h have "\<forall>kvs. json_loads (recursion_limit env) (int_max_str_digits env) reply \<noteq> Inr (JObject kvs)"
      by (auto simp: py_get_def)
    then have "parse_or_fallback env reply = (JArray [], JString reply)"
      by (rule parse_or_fallback_other)
    with analyze_file_asks [OF assms, of reply] h
    have a: "fst (analyze_file env file) =
          Inr (JObject [(lit ''metrics'', JArray []), (lit ''diagnosis'', JString reply)])"
      by simp
    from respond_returned [OF a] show ?thesis using a by (simp add: encodes_fallback)
  qed
  have two: "fst (ask_gemini env (file_prompt t) None) =
              Inr (case reply of
                     None \<Rightarrow> lit ''[No response]''
                   | Some s \<Rightarrow> if s = [] then lit ''[No response]'' else strip s)"
    if "generate_content env (full_prompt None (file_prompt t)) = GenText reply" for reply
    using that by (simp add: ask_gemini_def ask_gemini_try_def split: option.split)
  have three: "fst (analyze_file env file) =
              Inr (JObject [(lit ''metrics'', JArray []),
                            (lit ''diagnosis'', JString (lit ''I cannot parse this.''))])"
    if g: "generate_content env (full_prompt None (file_prompt t)) =
            GenText (Some (lit ''I cannot parse this.''))"
  proof -
    have "lit ''I cannot parse this.'' \<noteq> []" by (simp add: lit_def)
    with g have "fst (ask_gemini env (file_prompt t) None) = Inr (lit ''I cannot parse this.'')"
      using ask_gemini_text [of env None "file_prompt t"] by (simp add: strip_cannot)
    from analyze_file_asks [OF assms this] show ?thesis by (simp add: fallback_cannot)
  qed
  have four: "fst (route_analyze_file env file) =
              Inr (Status200 (JObject [(lit ''metrics'', JArray []),
                                       (lit ''diagnosis'', JString (lit ''I cannot parse this.''))]))"
    if g: "generate_content env (full_prompt None (file_prompt t)) =
            GenText (Some (lit ''I cannot parse this.'')) \<and> 2 \<le> encoder_limit env"
  proof -
    have "encodable (lit ''I cannot parse this.'')" by (simp add: encodable_def lit_def)
    with g respond_returned [OF three] show ?thesis by (simp add: encodes_fallback)
  qed
  from one two three four show ?thesis by blast
qed

theorem unparseable_reply_falls_back_witness:
  "fst (extract_text (fixed_env (GenText (Some (lit ''[1, 2]''))) False [])
     \<lparr>filename = lit ''report.txt'', content_type = Some (lit ''text/plain''), body = blit ''glucose 95''\<rparr>)
     = Inr (lit ''glucose 95'') \<and>
   strip (lit ''glucose 95'') \<noteq> [] \<and>
   fst (ask_gemini (fixed_env (GenText (Some (lit ''[1, 2]''))) False []) (file_prompt (lit ''glucose 95'')) None)
     = Inr (lit ''[1, 2]'') \<and>
   json_loads (recursion_limit (fixed_env (GenText (Some (lit ''[1, 2]''))) False []))
     (int_max_str_digits (fixed_env (GenText (Some (lit ''[1, 2]''))) False [])) (lit ''[1, 2]'')
     = Inr (JArray [JInt 1, JInt 2]) \<and>
   py_get (JArray [JInt 1, JInt 2]) (lit ''metrics'') (JArray []) = Inl AttributeError \<and>
   fst (analyze_file (fixed_env (GenText (Some (lit ''[1, 2]''))) False [])
     \<lparr>filename = lit ''report.txt'', content_type = Some (lit ''text/plain''), body = blit ''glucose 95''\<rparr>)
     = Inr (JObject [(lit ''metrics'', JArray []), (lit ''diagnosis'', JString (lit ''[1, 2]''))]) \<and>
   fst (route_analyze_file (fixed_env (GenText (Some (lit ''[1, 2]''))) False [])
     \<lparr>filename = lit ''report.txt'', content_type = Some (lit ''text/plain''), body = blit ''glucose 95''\<rparr>)
     = Inr (Status200 (JObject [(lit ''metrics'', JArray []), (lit ''diagnosis'', JString (lit ''[1, 2]''))])) \<and>
   generate_content (fixed_env (GenText (Some (lit '' I cannot parse this. ''))) False [])
     (full_prompt None (file_prompt (lit ''glucose 95''))) = GenText (Some (lit '' I cannot parse this. '')) \<and>
   fst (ask_gemini (fixed_env (GenText (Some (lit '' I cannot parse this. ''))) False [])
     (file_prompt (lit ''glucose 95'')) None) = Inr (lit ''I cannot parse this.'') \<and>
   generate_content (fixed_env (GenText (Some (lit ''I cannot parse this.''))) False [])
     (full_prompt None (file_prompt (lit ''glucose 95''))) = GenText (Some (lit ''I cannot parse this.'')) \<and>
   2 \<le> encoder_limit (fixed_env (GenText (Some (lit ''I cannot parse this.''))) False []) \<and>
   fst (analyze_file (fixed_env (GenText (Some (lit ''I cannot parse this.''))) False [])
     \<lparr>filename = lit ''report.txt'', content_type = Some (lit ''text/plain''), body = blit ''glucose 95''\<rparr>)
     = Inr (JObject [(lit ''metrics'', JArray []), (lit ''diagnosis'', JString (lit ''I cannot parse this.''))]) \<and>
   fst (route_analyze_file (fixed_env (GenText (Some (lit ''I cannot parse this.''))) False [])
     \<lparr>filename = lit ''report.txt'', content_type = Some (lit ''text/plain''), body = blit ''glucose 95''\<rparr>)
     = Inr (Status200 (JObject [(lit ''metrics'', JArray []),
                                (lit ''diagnosis'', JString (lit ''I cannot parse this.''))]))"
proof -
  let ?A = "fixed_env (GenText (Some (lit ''[1, 2]''))) False [] :: unit env"
  let ?P = "fixed_env (GenText (Some (lit '' I cannot parse this. ''))) False [] :: unit env"
  let ?E = "fixed_env (GenText (Some (lit ''I cannot parse this.''))) False [] :: unit env"
  let ?F = "\<lparr>filename = lit ''report.txt'', content_type = Some (lit ''text/plain''), body = blit ''glucose 95''\<rparr>"
  have xa: "fst (extract_text ?A ?F) = Inr (lit ''glucose 95'')" by (simp add: extract_glucose_txt)
  have xp: "fst (extract_text ?P ?F) = Inr (lit ''glucose 95'')" by (simp add: extract_glucose_txt)
  have xe: "fst (extract_text ?E ?F) = Inr (lit ''glucose 95'')" by (simp add: extract_glucose_txt)
  have ne: "lit ''[1, 2]'' \<noteq> []" by (simp add: lit_def)
  have st: "strip (lit ''[1, 2]'') = lit ''[1, 2]''" by (simp add: strip_def is_space_def lit_def)
  have ask: "fst (ask_gemini ?A (file_prompt (lit ''glucose 95'')) None) = Inr (lit ''[1, 2]'')"
    using ask_fixed_text [OF ne] by (simp add: st)
  have ld: "json_loads (recursion_limit ?A) (int_max_str_digits ?A) (lit ''[1, 2]'')
              = Inr (JArray [JInt 1, JInt 2])"
    using loads_array [of 999 4300] by (simp add: fixed_env_def)
  have pg: "py_get (JArray [JInt 1, JInt 2]) (lit ''metrics'') (JArray []) = Inl AttributeError"
    by (simp add: py_get_def)
  have en: "encodable (lit ''[1, 2]'') \<and> 2 \<le> encoder_limit ?A"
    by (simp add: encodable_def lit_def fixed_env_def)
  have gp: "generate_content ?P (full_prompt None (file_prompt (lit ''glucose 95'')))
             = GenText (Some (lit '' I cannot parse this. ''))"
    by (simp add: fixed_env_def)
  have pn: "lit '' I cannot parse this. '' \<noteq> []" by (simp add: lit_def)
  have g: "generate_content ?E (full_prompt None (file_prompt (lit ''glucose 95'')))
             = GenText (Some (lit ''I cannot parse this.''))"
    by (simp add: fixed_env_def)
  have l: "2 \<le> encoder_limit ?E" by (simp add: fixed_env_def)
  from unparseable_reply_falls_back [OF xa strip_glucose_ne] ask ld pg
  have "fst (analyze_file ?A ?F)
     = Inr (JObject [(lit ''metrics'', JArray []), (lit ''diagnosis'', JString (lit ''[1, 2]''))]) \<and>
     fst (route_analyze_file ?A ?F) =
       Inr (if encodable (lit ''[1, 2]'') \<and> 2 \<le> encoder_limit ?A
            then Status200 (JObject [(lit ''metrics'', JArray []), (lit ''diagnosis'', JString (lit ''[1, 2]''))])
            else Status500)"
    by blast
  with en have one: "fst (analyze_file ?A ?F)
     = Inr (JObject [(lit ''metrics'', JArray []), (lit ''diagnosis'', JString (lit ''[1, 2]''))])"
    "fst (route_analyze_file ?A ?F)
     = Inr (Status200 (JObject [(lit ''metrics'', JArray []), (lit ''diagnosis'', JString (lit ''[1, 2]''))]))"
    by simp_all
  from unparseable_reply_falls_back [OF xp strip_glucose_ne] gp
  have "fst (ask_gemini ?P (file_prompt (lit ''glucose 95'')) None) =
     Inr (case Some (lit '' I cannot parse this. '') of
            None \<Rightarrow> lit ''[No response]''
          | Some s \<Rightarrow> if s = [] then lit ''[No response]'' else strip s)"
    by blast
  with pn have two: "fst (ask_gemini ?P (file_prompt (lit ''glucose 95'')) None) = Inr (lit ''I cannot parse this.'')"
    by (simp add: strip_padded)
  from unparseable_reply_falls_back [OF xe strip_glucose_ne] g l
  have three: "fst (analyze_file ?E ?F)
     = Inr (JObject [(lit ''metrics'', JArray []), (lit ''diagnosis'', JString (lit ''I cannot parse this.''))])"
    "fst (route_analyze_file ?E ?F)
     = Inr (Status200 (JObject [(lit ''metrics'', JArray []),
                                (lit ''diagnosis'', JString (lit ''I cannot parse this.''))]))"
    by blast+
  from xa strip_glucose_ne ask ld pg one gp two g l three show ?thesis by simp
qed




text \<open>
  As stated, claim C6 fails: the handler passes on whatever the reply holds under
  the two keys. A reply with the number 5 as metrics and \<^verbatim>\<open>null\<close> as diagnosis
  gives a successful response whose metrics field is no array and whose diagnosis
  field is no string.
\<close>

theorem metrics_not_an_array_counterexample:
  \<open>fst (analyze_file (fixed_env (GenText (Some (lit ''{"metrics": 5, "diagnosis": null}''))) False [])
     \<lparr>filename = lit ''report.txt'', content_type = Some (lit ''text/plain''), body = blit ''glucose 95''\<rparr>)
     = Inr (JObject [(lit ''metrics'', JInt 5), (lit ''diagnosis'', JNull)]) \<and>
   \<not> is_object_array (JInt 5) \<and> \<not> is_str JNull\<close>
proof -
  let ?R = \<open>lit ''{"metrics": 5, "diagnosis": null}''\<close>
  let ?E = "fixed_env (GenText (Some ?R)) False [] :: unit env"
  let ?F = "\<lparr>filename = lit ''report.txt'', content_type = Some (lit ''text/plain''), body = blit ''glucose 95''\<rparr>"
  have x: "fst (extract_text ?E ?F) = Inr (lit ''glucose 95'')" by (simp add: extract_glucose_txt)
  have ne: "?R \<noteq> []" by (simp add: lit_def)
  have st: "strip ?R = ?R" by (simp add: strip_def is_space_def lit_def)
  have ask: "fst (ask_gemini ?E (file_prompt (lit ''glucose 95'')) None) = Inr ?R"
    using ask_fixed_text [OF ne] by (simp add: st)
  have "json_loads (recursion_limit ?E) (int_max_str_digits ?E) ?R =
          Inr (JObject [(lit ''metrics'', JInt 5), (lit ''diagnosis'', JNull)])"
    using loads_five_null [of 999 4300] by (simp add: fixed_env_def)
  then have "parse_or_fallback ?E ?R = (JInt 5, JNull)"
    by (simp add: parse_or_fallback_object) (simp add: lit_def)
  with analyze_file_asks [OF x strip_glucose_ne ask] show ?thesis by simp
qed

text \<open>
  Claim C6, amended. For every successful response, the metrics field is a sequence
  of objects and the diagnosis field is a string exactly when the reply is not a
  JSON object (the fields are then the empty list and the reply), or it is one
  whose \<^verbatim>\<open>"metrics"\<close> value, if present, is an array of objects and whose
  \<^verbatim>\<open>"diagnosis"\<close> value, if present, is a string: the handler checks neither.
\<close>

theorem response_fields_shaped_as_reply:
  assumes "fst (analyze_file env file) = Inr (JObject [(lit ''metrics'', m), (lit ''diagnosis'', d)])"
  shows "\<exists>t reply.
           fst (extract_text env file) = Inr t \<and> strip t \<noteq> [] \<and>
           fst (ask_gemini env (file_prompt t) None) = Inr reply \<and>
           (is_object_array m \<and> is_str d \<longleftrightarrow>
              (\<forall>kvs. json_loads (recursion_limit env) (int_max_str_digits env) reply = Inr (JObject kvs) \<longrightarrow>
                 is_object_array (case map_of kvs (lit ''metrics'') of None \<Rightarrow> JArray [] | Some v \<Rightarrow> v) \<and>
                 is_str (case map_of kvs (lit ''diagnosis'') of None \<Rightarrow> JString [] | Some v \<Rightarrow> v)))"
proof -
  from analyze_file_asked [OF assms] obtain t reply where
    t: "fst (extract_text env file) = Inr t" and ne: "strip t \<noteq> []" and
    reply: "fst (ask_gemini env (file_prompt t) None) = Inr reply"
    by blast
  from analyze_file_asks [OF t ne reply] assms
  have md: "m = fst (parse_or_fallback env reply)" "d = snd (parse_or_fallback env reply)"
    by simp_all
  have "is_object_array m \<and> is_str d \<longleftrightarrow>
            (\<forall>kvs. json_loads (recursion_limit env) (int_max_str_digits env) reply = Inr (JObject kvs) \<longrightarrow>
               is_object_array (case map_of kvs (lit ''metrics'') of None \<Rightarrow> JArray [] | Some v \<Rightarrow> v) \<and>
               is_str (case map_of kvs (lit ''diagnosis'') of None \<Rightarrow> JString [] | Some v \<Rightarrow> v))"
  proof (cases "\<exists>kvs. json_loads (recursion_limit env) (int_max_str_digits env) reply = Inr (JObject kvs)")
    case True
    then obtain kvs where k: "json_loads (recursion_limit env) (int_max_str_digits env) reply = Inr (JObject kvs)"
      by blast
    from parse_or_fallback_object [OF k] md k show ?thesis by simp
  next
    case False
    then have "parse_or_fallback env reply = (JArray [], JString reply)"
      by (simp add: parse_or_fallback_other)
    with md False show ?thesis by simp
  qed
  with t ne reply show ?thesis by blast
qed

theorem response_fields_shaped_as_reply_witness:
  "fst (analyze_file (fixed_env (GenText (Some glucose_reply)) False [])
     \<lparr>filename = lit ''report.txt'', content_type = Some (lit ''text/plain''), body = blit ''glucose 95''\<rparr>)
     = Inr (JObject [(lit ''metrics'', glucose_metrics), (lit ''diagnosis'', JString (lit ''normal''))]) \<and>
   fst (extract_text (fixed_env (GenText (Some glucose_reply)) False [])
     \<lparr>filename = lit ''report.txt'', content_type = Some (lit ''text/plain''), body = blit ''glucose 95''\<rparr>)
     = Inr (lit ''glucose 95'') \<and>
   fst (ask_gemini (fixed_env (GenText (Some glucose_reply)) False []) (file_prompt (lit ''glucose 95'')) None)
     = Inr glucose_reply \<and>
   json_loads (recursion_limit (fixed_env (GenText (Some glucose_reply)) False []))
     (int_max_str_digits (fixed_env (GenText (Some glucose_reply)) False [])) glucose_reply =
     Inr (JObject [(lit ''metrics'', glucose_metrics), (lit ''diagnosis'', JString (lit ''normal''))]) \<and>
   is_object_array glucose_metrics \<and> is_str (JString (lit ''normal''))"
proof -
  let ?E = "fixed_env (GenText (Some glucose_reply)) False [] :: unit env"
  let ?F = "\<lparr>filename = lit ''report.txt'', content_type = Some (lit ''text/plain''), body = blit ''glucose 95''\<rparr>"
  have x: "fst (extract_text ?E ?F) = Inr (lit ''glucose 95'')" by (simp add: extract_glucose_txt)
  have ne: "glucose_reply \<noteq> []" by (simp add: glucose_reply_def lit_def)
  have ask: "fst (ask_gemini ?E (file_prompt (lit ''glucose 95'')) None) = Inr glucose_reply"
    using ask_fixed_text [OF ne] by (simp add: strip_glucose_reply)
  have ld: "json_loads (recursion_limit ?E) (int_max_str_digits ?E) glucose_reply =
     Inr (JObject [(lit ''metrics'', glucose_metrics), (lit ''diagnosis'', JString (lit ''normal''))])"
    by (simp add: loads_glucose fixed_env_def)
  then have "parse_or_fallback ?E glucose_reply = (glucose_metrics, JString (lit ''normal''))"
    by (simp add: parse_or_fallback_object) (simp add: lit_def)
  with analyze_file_asks [OF x strip_glucose_ne ask]
  have a: "fst (analyze_file ?E ?F)
     = Inr (JObject [(lit ''metrics'', glucose_metrics), (lit ''diagnosis'', JString (lit ''normal''))])"
    by simp
  have shape: "is_object_array glucose_metrics" "is_str (JString (lit ''normal''))"
    by (simp_all add: glucose_metrics_def)
  from response_fields_shaped_as_reply [OF a] a x ask ld shape show ?thesis by simp
qed

text \<open>
  Claim C7. When the upload is classified as text or image and the extraction
  gives a string that is empty or all whitespace, the response is the
  no-text error and the model is not called; the response is the one an
  extraction of the empty string gets.
\<close>

theorem blank_extraction_rejected:
  assumes "fst (extract_text env file) = Inr t" and "list_all is_space t"
  shows "(is_text_file env file \<or> is_image_file env file) \<and>
         fst (analyze_file env file) =
           Inr (JObject [(lit ''error'', JString (lit ''No text could be extracted from the file.''))]) \<and>
         (\<forall>p. GenerateContent p \<notin> set (snd (analyze_file env file))) \<and>
         fst (analyze_file env file) = fst (analyze_extracted env [])"
proof -
  from assms(2) have blank: "strip t = []" by (simp add: strip_empty_iff list_all_iff)
  have cls: "is_text_file env file \<or> is_image_file env file"
    using assms(1) by (auto simp: extract_text_def split: if_splits)
  have calls: "GenerateContent p \<notin> set (snd (extract_text env file))" for p
    by (auto simp: extract_text_def split: if_splits sum.splits)
  have "analyze_file env file =
          (Inr (JObject [(lit ''error'', JString (lit ''No text could be extracted from the file.''))]),
           snd (extract_text env file))"
    using assms(1) analyze_extracted_blank [OF blank, of env]
    by (cases "extract_text env file") (simp add: analyze_file_def)
  with cls calls show ?thesis by (simp add: analyze_extracted_def strip_def)
qed

theorem blank_extraction_rejected_witness:
  "fst (extract_text (fixed_env (GenText (Some (lit ''I cannot parse this.''))) True ([32, 10, 0x3000]))
     \<lparr>filename = lit ''scan.png'', content_type = Some (lit ''image/png''), body = blit ''glucose 95''\<rparr>)
     = Inr [32, 10, 0x3000] \<and>
   list_all is_space [32, 10, 0x3000] \<and>
   analyze_file (fixed_env (GenText (Some (lit ''I cannot parse this.''))) True ([32, 10, 0x3000]))
     \<lparr>filename = lit ''scan.png'', content_type = Some (lit ''image/png''), body = blit ''glucose 95''\<rparr> =
     (Inr (JObject [(lit ''error'', JString (lit ''No text could be extracted from the file.''))]),
      [ImageOpen (blit ''glucose 95''), ImageToString ()])"
proof -
  let ?E = "fixed_env (GenText (Some (lit ''I cannot parse this.''))) True ([32, 10, 0x3000]) :: unit env"
  let ?F = "\<lparr>filename = lit ''scan.png'', content_type = Some (lit ''image/png''), body = blit ''glucose 95''\<rparr>"
  have ex: "extract_text ?E ?F = (Inr [32, 10, 0x3000], [ImageOpen (blit ''glucose 95''), ImageToString ()])"
    by (simp add: extract_text_def is_text_file_def is_image_file_def ctype_of_def startswith_def
        endswith_def fixed_env_def lower_def lower_at_def upt_rec lit_def)
  have sp: "list_all is_space [32, 10, 0x3000]" by (simp add: is_space_def)
  have e1: "fst (extract_text ?E ?F) = Inr [32, 10, 0x3000]" using ex by simp
  have "snd (analyze_file ?E ?F) = [ImageOpen (blit ''glucose 95''), ImageToString ()]"
    using ex sp by (simp add: analyze_file_def analyze_extracted_def strip_empty_iff list_all_iff)
  with blank_extraction_rejected [OF e1 sp] e1 sp show ?thesis
    by (simp add: prod_eq_iff)
qed

text \<open>
  As stated, claim C8 fails for an upload that meets the image test but also the
  text test, which comes first: \<^verbatim>\<open>scan.png\<close> declared \<^verbatim>\<open>text/plain\<close> is decoded
  as text although OCR is unavailable.
\<close>

theorem image_name_text_type_counterexample:
  "\<not> OCR_AVAILABLE (fixed_env (GenText (Some (lit ''I cannot parse this.''))) False []) \<and>
   is_image_file (fixed_env (GenText (Some (lit ''I cannot parse this.''))) False [])
     \<lparr>filename = lit ''scan.png'', content_type = Some (lit ''text/plain''), body = blit ''glucose 95''\<rparr> \<and>
   analyze_file (fixed_env (GenText (Some (lit ''I cannot parse this.''))) False [])
     \<lparr>filename = lit ''scan.png'', content_type = Some (lit ''text/plain''), body = blit ''glucose 95''\<rparr> =
     (Inr (JObject [(lit ''metrics'', JArray []), (lit ''diagnosis'', JString (lit ''I cannot parse this.''))]),
      [GenerateContent (full_prompt None (file_prompt (lit ''glucose 95'')))])"
proof -
  let ?E = "fixed_env (GenText (Some (lit ''I cannot parse this.''))) False [] :: unit env"
  let ?F = "\<lparr>filename = lit ''scan.png'', content_type = Some (lit ''text/plain''), body = blit ''glucose 95''\<rparr>"
  have ocr: "\<not> OCR_AVAILABLE ?E" by (simp add: fixed_env_def)
  have img: "is_image_file ?E ?F"
    by (simp add: is_image_file_def endswith_any_def fixed_env_def lower_def lower_at_def lit_def
        upt_rec endswith_def)
  have istext: "is_text_file ?E ?F"
    by (simp add: is_text_file_def ctype_of_def startswith_def lit_def)
  have "analyze_file ?E ?F = analyze_extracted ?E (lit ''glucose 95'')"
    using analyze_file_text [OF istext] decode_glucose by simp
  with ocr img show ?thesis by (simp add: glucose_cannot)
qed

text \<open>
  Claim C8, amended. If OCR was marked unavailable at process start, then for every
  upload that the text test does not take and that is classified as an image
  (content type starting with \<^verbatim>\<open>image/\<close>, or file name ending in \<^verbatim>\<open>.png\<close>,
  \<^verbatim>\<open>.jpg\<close> or \<^verbatim>\<open>.jpeg\<close>), the response is the OCR-unavailable error, and the image
  is neither opened nor read: no external call is made.
\<close>

theorem image_rejected_without_ocr:
  assumes "\<not> OCR_AVAILABLE env" and "\<not> is_text_file env file" and "is_image_file env file"
  shows "analyze_file env file =
     (Inr (JObject [(lit ''error'', JString (lit ''OCR is not available. Install Pillow and pytesseract.''))]), [])"
  using assms by (simp add: analyze_file_def extract_text_def)

theorem image_rejected_without_ocr_witness:
  "\<not> OCR_AVAILABLE (fixed_env (GenText (Some (lit ''I cannot parse this.''))) False []) \<and>
   \<not> is_text_file (fixed_env (GenText (Some (lit ''I cannot parse this.''))) False [])
     \<lparr>filename = lit ''Scan.JPG'', content_type = None, body = blit ''glucose 95''\<rparr> \<and>
   is_image_file (fixed_env (GenText (Some (lit ''I cannot parse this.''))) False [])
     \<lparr>filename = lit ''Scan.JPG'', content_type = None, body = blit ''glucose 95''\<rparr> \<and>
   analyze_file (fixed_env (GenText (Some (lit ''I cannot parse this.''))) False [])
     \<lparr>filename = lit ''Scan.JPG'', content_type = None, body = blit ''glucose 95''\<rparr> =
     (Inr (JObject [(lit ''error'', JString (lit ''OCR is not available. Install Pillow and pytesseract.''))]), [])"
proof -
  let ?E = "fixed_env (GenText (Some (lit ''I cannot parse this.''))) False [] :: unit env"
  let ?F = "\<lparr>filename = lit ''Scan.JPG'', content_type = None, body = blit ''glucose 95''\<rparr>"
  have ocr: "\<not> OCR_AVAILABLE ?E" by (simp add: fixed_env_def)
  have img: "is_image_file ?E ?F"
    by (simp add: is_image_file_def endswith_any_def fixed_env_def lower_def lower_at_def lit_def
        upt_rec endswith_def)
  have notext: "\<not> is_text_file ?E ?F"
    by (simp add: is_text_file_def ctype_of_def startswith_def fixed_env_def lower_def lower_at_def
        lit_def upt_rec endswith_def)
  from ocr notext img image_rejected_without_ocr [OF ocr notext img] show ?thesis by simp
qed

text \<open>
  Claim C9. For a text-classified upload the decoding step raises on no byte
  sequence: it gives a string, with which the handler goes on to the empty-text
  test. Where the bytes are valid UTF-8 the string is their decoding; where they
  are not, it holds the substitute character \<open>U+FFFD\<close>. The handler then returns
  a response when the text is blank or the model call returns or raises an
  exception deriving from \<^verbatim>\<open>Exception\<close>, and no such exception leaves it.
\<close>

theorem text_upload_decoding_total:
  assumes "is_text_file env file"
  shows "\<exists>t. bytes_decode Replace (body file) = Inr t \<and>
             extract_text env file = (Inr t, []) \<and>
             analyze_file env file = analyze_extracted env t \<and>
             (strip t = [] \<or> settles (generate_content env (full_prompt None (file_prompt t))) \<longrightarrow>
                (\<exists>res. fst (analyze_file env file) = Inr res)) \<and>
             (\<forall>e. fst (analyze_file env file) = Inl (Raise e) \<longrightarrow> \<not> derives_from_Exception e) \<and>
             (\<forall>s. bytes_decode Strict (body file) = Inr s \<longrightarrow> t = s) \<and>
             (\<forall>e. bytes_decode Strict (body file) = Inl e \<longrightarrow> 0xFFFD \<in> set t)"
proof -
  obtain t where t: "bytes_decode Replace (body file) = Inr t"
    using bytes_decode_replace_total by blast
  have a: "analyze_file env file = analyze_extracted env t"
    using assms t by (rule analyze_file_text)
  have "\<forall>s. bytes_decode Strict (body file) = Inr s \<longrightarrow> t = s"
    using bytes_decode_strict_replace t by fastforce
  moreover have "\<forall>e. bytes_decode Strict (body file) = Inl e \<longrightarrow> 0xFFFD \<in> set t"
    using bytes_decode_replace_marks t by fastforce
  moreover have "strip t = [] \<or> settles (generate_content env (full_prompt None (file_prompt t))) \<longrightarrow>
                (\<exists>res. fst (analyze_file env file) = Inr res)"
    using a analyze_extracted_returns [of t env] by simp
  moreover have "\<forall>e. fst (analyze_file env file) = Inl (Raise e) \<longrightarrow> \<not> derives_from_Exception e"
    using a analyze_extracted_no_exception [of env t] by simp
  ultimately show ?thesis
    using t a extract_text_text [OF assms t] by blast
qed

theorem text_upload_decoding_total_witness:
  "is_text_file (fixed_env (GenText (Some (lit ''I cannot parse this.''))) False [])
     \<lparr>filename = lit ''notes.TXT'', content_type = None, body = [0x67, 0xFF, 0xE2, 0x82, 0x35]\<rparr> \<and>
   bytes_decode Strict [0x67, 0xFF, 0xE2, 0x82, 0x35] = Inl UnicodeDecodeError \<and>
   extract_text (fixed_env (GenText (Some (lit ''I cannot parse this.''))) False [])
     \<lparr>filename = lit ''notes.TXT'', content_type = None, body = [0x67, 0xFF, 0xE2, 0x82, 0x35]\<rparr> =
     (Inr [0x67, 0xFFFD, 0xFFFD, 0x35], []) \<and>
   settles (generate_content (fixed_env (GenText (Some (lit ''I cannot parse this.''))) False [])
     (full_prompt None (file_prompt [0x67, 0xFFFD, 0xFFFD, 0x35]))) \<and>
   fst (analyze_file (fixed_env (GenText (Some (lit ''I cannot parse this.''))) False [])
     \<lparr>filename = lit ''notes.TXT'', content_type = None, body = [0x67, 0xFF, 0xE2, 0x82, 0x35]\<rparr>) =
     Inr (JObject [(lit ''metrics'', JArray []), (lit ''diagnosis'', JString (lit ''I cannot parse this.''))])"
proof -
  let ?E = "fixed_env (GenText (Some (lit ''I cannot parse this.''))) False [] :: unit env"
  let ?F = "\<lparr>filename = lit ''notes.TXT'', content_type = None, body = [0x67, 0xFF, 0xE2, 0x82, 0x35]\<rparr>"
  have istext: "is_text_file ?E ?F"
    by (simp add: is_text_file_def fixed_env_def lower_def lower_at_def lit_def upt_rec endswith_def)
  have d: "bytes_decode Replace (body ?F) = Inr [0x67, 0xFFFD, 0xFFFD, 0x35]"
    by (simp add: utf8_next_def is_cont_def)
  have s: "bytes_decode Strict [0x67, 0xFF, 0xE2, 0x82, 0x35] = Inl UnicodeDecodeError"
    by (simp add: utf8_next_def is_cont_def)
  have g: "settles (generate_content ?E (full_prompt None (file_prompt [0x67, 0xFFFD, 0xFFFD, 0x35])))"
    by (simp add: fixed_env_def)
  have nb: "strip [0x67, 0xFFFD, 0xFFFD, 0x35] \<noteq> []" by (simp add: strip_def is_space_def)
  have ne: "lit ''I cannot parse this.'' \<noteq> []" by (simp add: lit_def)
  have ask: "fst (ask_gemini ?E (file_prompt [0x67, 0xFFFD, 0xFFFD, 0x35]) None) = Inr (lit ''I cannot parse this.'')"
    using ask_fixed_text [OF ne] by (simp add: strip_cannot)
  from text_upload_decoding_total [OF istext] d g have
    e: "extract_text ?E ?F = (Inr [0x67, 0xFFFD, 0xFFFD, 0x35], [])"
    and a: "analyze_file ?E ?F = analyze_extracted ?E [0x67, 0xFFFD, 0xFFFD, 0x35]"
    and "\<exists>res. fst (analyze_file ?E ?F) = Inr res"
    by auto
  from a analyze_extracted_asks [OF nb ask]
  have "fst (analyze_file ?E ?F) =
     Inr (JObject [(lit ''metrics'', JArray []), (lit ''diagnosis'', JString (lit ''I cannot parse this.''))])"
    by (simp add: fallback_cannot)
  with istext s e g show ?thesis by simp
qed

text \<open>
  Claim C10. The classification is ordered: the text test first, then the image
  test, then the \<^verbatim>\<open>.pdf\<close> test, then the rejection. The four conditions below
  exclude each other and one of them holds, so each request takes exactly one
  branch: a file the text test takes is decoded and analysed as text; one that
  only the image test takes is opened as an image first, or gets the OCR error;
  one that only the \<^verbatim>\<open>.pdf\<close> test takes gets the PDF error; any other the
  unsupported-type error. Hence with a content type starting with \<^verbatim>\<open>text/\<close> the
  file name, \<^verbatim>\<open>.pdf\<close>, \<^verbatim>\<open>.png\<close>, \<^verbatim>\<open>.jpg\<close> or \<^verbatim>\<open>.jpeg\<close> included, changes
  nothing of what the handler does.
\<close>

theorem classification_is_ordered:
  "(is_text_file env file \<longrightarrow>
      (\<exists>t. bytes_decode Replace (body file) = Inr t \<and>
           analyze_file env file = analyze_extracted env t)) \<and>
   (\<not> is_text_file env file \<and> is_image_file env file \<longrightarrow>
      (if OCR_AVAILABLE env
       then snd (analyze_file env file) \<noteq> [] \<and>
            hd (snd (analyze_file env file)) = ImageOpen (body file)
       else analyze_file env file =
         (Inr (JObject [(lit ''error'', JString (lit ''OCR is not available. Install Pillow and pytesseract.''))]), []))) \<and>
   (\<not> is_text_file env file \<and> \<not> is_image_file env file \<and> is_pdf_file env file \<longrightarrow>
      analyze_file env file =
        (Inr (JObject [(lit ''error'', JString (lit ''PDF parsing not enabled. Please convert PDF to text or image.''))]), [])) \<and>
   (\<not> is_text_file env file \<and> \<not> is_image_file env file \<and> \<not> is_pdf_file env file \<longrightarrow>
      analyze_file env file =
        (Inr (JObject [(lit ''error'', JString (lit ''Unsupported file type. Send text or image files.''))]), [])) \<and>
   (startswith (ctype_of file) (lit ''text/'') \<longrightarrow>
      (\<forall>name. analyze_file env (file\<lparr>filename := name\<rparr>) = analyze_file env file))"
proof (intro conjI impI allI)
  assume t: "is_text_file env file"
  obtain s where s: "bytes_decode Replace (body file) = Inr s"
    using bytes_decode_replace_total by blast
  with analyze_file_text [OF t s]
  show "\<exists>t. bytes_decode Replace (body file) = Inr t \<and> analyze_file env file = analyze_extracted env t"
    by blast
next
  assume "\<not> is_text_file env file \<and> is_image_file env file"
  then show "if OCR_AVAILABLE env
       then snd (analyze_file env file) \<noteq> [] \<and>
            hd (snd (analyze_file env file)) = ImageOpen (body file)
       else analyze_file env file =
         (Inr (JObject [(lit ''error'', JString (lit ''OCR is not available. Install Pillow and pytesseract.''))]), [])"
    by (auto simp: analyze_file_def extract_text_def split: sum.splits)
next
  assume "\<not> is_text_file env file \<and> \<not> is_image_file env file \<and> is_pdf_file env file"
  then show "analyze_file env file =
        (Inr (JObject [(lit ''error'', JString (lit ''PDF parsing not enabled. Please convert PDF to text or image.''))]), [])"
    by (simp add: analyze_file_pdf)
next
  assume "\<not> is_text_file env file \<and> \<not> is_image_file env file \<and> \<not> is_pdf_file env file"
  then show "analyze_file env file =
        (Inr (JObject [(lit ''error'', JString (lit ''Unsupported file type. Send text or image files.''))]), [])"
    by (simp add: analyze_file_unsupported)
next
  fix name
  assume c: "startswith (ctype_of file) (lit ''text/'')"
  obtain s where s: "bytes_decode Replace (body file) = Inr s"
    using bytes_decode_replace_total by blast
  have t1: "is_text_file env file" using c by (simp add: is_text_file_def)
  have t2: "is_text_file env (file\<lparr>filename := name\<rparr>)"
    using c by (simp add: is_text_file_def ctype_of_def)
  have "analyze_file env (file\<lparr>filename := name\<rparr>) = analyze_extracted env s"
    using analyze_file_text [OF t2] s by simp
  with analyze_file_text [OF t1 s]
  show "analyze_file env (file\<lparr>filename := name\<rparr>) = analyze_file env file" by simp
qed

theorem classification_is_ordered_witness:
  "is_text_file (fixed_env (GenText (Some (lit ''I cannot parse this.''))) False [])
     \<lparr>filename = lit ''report.pdf'', content_type = Some (lit ''text/plain''), body = blit ''glucose 95''\<rparr> \<and>
   startswith (ctype_of \<lparr>filename = lit ''report.pdf'', content_type = Some (lit ''text/plain''), body = blit ''glucose 95''\<rparr>) (lit ''text/'') \<and>
   analyze_file (fixed_env (GenText (Some (lit ''I cannot parse this.''))) False [])
     \<lparr>filename = lit ''report.pdf'', content_type = Some (lit ''text/plain''), body = blit ''glucose 95''\<rparr> =
     analyze_extracted (fixed_env (GenText (Some (lit ''I cannot parse this.''))) False []) (lit ''glucose 95'') \<and>
   analyze_file (fixed_env (GenText (Some (lit ''I cannot parse this.''))) False [])
     \<lparr>filename = lit ''scan.jpeg'', content_type = Some (lit ''text/plain''), body = blit ''glucose 95''\<rparr> =
     analyze_extracted (fixed_env (GenText (Some (lit ''I cannot parse this.''))) False []) (lit ''glucose 95'') \<and>
   \<not> is_text_file (fixed_env (GenText (Some (lit ''I cannot parse this.''))) False [])
     \<lparr>filename = lit ''tool.exe'', content_type = Some (lit ''application/octet-stream''), body = blit ''MZ''\<rparr> \<and>
   \<not> is_image_file (fixed_env (GenText (Some (lit ''I cannot parse this.''))) False [])
     \<lparr>filename = lit ''tool.exe'', content_type = Some (lit ''application/octet-stream''), body = blit ''MZ''\<rparr> \<and>
   \<not> is_pdf_file (fixed_env (GenText (Some (lit ''I cannot parse this.''))) False [])
     \<lparr>filename = lit ''tool.exe'', content_type = Some (lit ''application/octet-stream''), body = blit ''MZ''\<rparr> \<and>
   analyze_file (fixed_env (GenText (Some (lit ''I cannot parse this.''))) False [])
     \<lparr>filename = lit ''tool.exe'', content_type = Some (lit ''application/octet-stream''), body = blit ''MZ''\<rparr> =
     (Inr (JObject [(lit ''error'', JString (lit ''Unsupported file type. Send text or image files.''))]), [])"
proof -
  let ?E = "fixed_env (GenText (Some (lit ''I cannot parse this.''))) False [] :: unit env"
  let ?F = "\<lparr>filename = lit ''report.pdf'', content_type = Some (lit ''text/plain''), body = blit ''glucose 95''\<rparr>"
  let ?G = "\<lparr>filename = lit ''tool.exe'', content_type = Some (lit ''application/octet-stream''), body = blit ''MZ''\<rparr>"
  have c: "startswith (ctype_of ?F) (lit ''text/'')"
    by (simp add: ctype_of_def startswith_def lit_def)
  then have t: "is_text_file ?E ?F" by (simp add: is_text_file_def)
  have g: "\<not> is_text_file ?E ?G" "\<not> is_image_file ?E ?G" "\<not> is_pdf_file ?E ?G"
    by (simp_all add: is_text_file_def is_image_file_def is_pdf_file_def endswith_any_def
        ctype_of_def startswith_def fixed_env_def lower_def lower_at_def lit_def upt_rec endswith_def)
  from classification_is_ordered [of ?E ?F] t decode_glucose
  have a: "analyze_file ?E ?F = analyze_extracted ?E (lit ''glucose 95'')" by auto
  from classification_is_ordered [of ?E ?F] c
  have "analyze_file ?E (?F\<lparr>filename := lit ''scan.jpeg''\<rparr>) = analyze_file ?E ?F" by blast
  with a have b: "analyze_file ?E \<lparr>filename = lit ''scan.jpeg'', content_type = Some (lit ''text/plain''), body = blit ''glucose 95''\<rparr>
     = analyze_extracted ?E (lit ''glucose 95'')" by simp
  from classification_is_ordered [of ?E ?G] g
  have u: "analyze_file ?E ?G =
     (Inr (JObject [(lit ''error'', JString (lit ''Unsupported file type. Send text or image files.''))]), [])"
    by blast
  from t c a b g u show ?thesis by simp
qed

end
